theory Spec2Isabelle
  imports Complex_Main "HOL-Library.Sublist"
begin

section \<open>Python values, exceptions and the builtins the script uses\<close>

text \<open>
  The script \<^verbatim>\<open>app4.py\<close> is a Streamlit page around a three-node LangGraph pipeline:
  memory retrieval, response planning (LLM2) and response generation with persistence (LLM1).
  Python \<^verbatim>\<open>str\<close> values are modelled as \<^typ>\<open>string\<close> holding the UTF-8 encoding of the
  text; the Japanese literals of the source are therefore byte lists.

  The records a memory search returns are JSON-like Python values. Floats and user-defined
  classes are not modelled; dictionary keys are strings; a dictionary is an association list
  read with \<^const>\<open>map_of\<close>.
\<close>

datatype pyval =
    PNone
  | PBool bool
  | PInt int
  | PStr string
  | PList "pyval list"
  | PDict "(string \<times> pyval) list"

text \<open>
  Exceptions. \<open>ExternalError\<close> stands for whatever an external collaborator (the memory
  store, the completion provider) raises, tagged with a name. All of them derive from
  Python's \<^verbatim>\<open>Exception\<close>, so \<^verbatim>\<open>except Exception\<close> catches every value of this type.
\<close>

datatype exn =
    TypeError
  | KeyError string
  | NameError string
  | GraphRecursionError
  | ExternalError string

text \<open>The handler \<^verbatim>\<open>except (TypeError, KeyError)\<close> of \<^verbatim>\<open>retrieve_memory_node\<close>.\<close>

fun is_TypeError_or_KeyError :: "exn \<Rightarrow> bool" where
  "is_TypeError_or_KeyError TypeError = True"
| "is_TypeError_or_KeyError (KeyError k) = True"
| "is_TypeError_or_KeyError e = False"

text \<open>\<^verbatim>\<open>isinstance(r, dict)\<close>.\<close>

fun is_dict :: "pyval \<Rightarrow> bool" where
  "is_dict (PDict d) = True"
| "is_dict v = False"

text \<open>
  \<^verbatim>\<open>k in v\<close> for a string \<open>k\<close>: key membership in a dict, substring test in a str, element
  membership in a list, and \<^verbatim>\<open>TypeError\<close> (argument is not iterable) for None, bool and int.
\<close>

fun py_in :: "string \<Rightarrow> pyval \<Rightarrow> exn + bool" where
  "py_in k (PDict d) = Inr (map_of d k \<noteq> None)"
| "py_in k (PStr s) = Inr (sublist k s)"
| "py_in k (PList l) = Inr (PStr k \<in> set l)"
| "py_in k v = Inl TypeError"

text \<open>
  \<^verbatim>\<open>v[k]\<close> for a string \<open>k\<close>: lookup in a dict (\<^verbatim>\<open>KeyError\<close> when absent); a str or a
  list takes integer indices only and None, bool and int are not subscriptable, all
  \<^verbatim>\<open>TypeError\<close>.
\<close>

fun py_getitem :: "pyval \<Rightarrow> string \<Rightarrow> exn + pyval" where
  "py_getitem (PDict d) k = (case map_of d k of None \<Rightarrow> Inl (KeyError k) | Some v \<Rightarrow> Inr v)"
| "py_getitem v k = Inl TypeError"

text \<open>
  \<^verbatim>\<open>sep.join(items)\<close>: every item must be a str, otherwise \<^verbatim>\<open>TypeError\<close>
  (sequence item: expected str instance).
\<close>

fun strs_of :: "pyval list \<Rightarrow> exn + string list" where
  "strs_of [] = Inr []"
| "strs_of (PStr s # vs) = (case strs_of vs of Inl e \<Rightarrow> Inl e | Inr ss \<Rightarrow> Inr (s # ss))"
| "strs_of (v # vs) = Inl TypeError"

fun join :: "string \<Rightarrow> string list \<Rightarrow> string" where
  "join sep [] = []"
| "join sep [s] = s"
| "join sep (s # t # ss) = s @ sep @ join sep (t # ss)"

definition py_join :: "string \<Rightarrow> pyval list \<Rightarrow> exn + string" where
  "py_join sep vs = (case strs_of vs of Inl e \<Rightarrow> Inl e | Inr ss \<Rightarrow> Inr (join sep ss))"

text \<open>
  \<^verbatim>\<open>str(v)\<close>: a str is its own text; for every other value it is the value's \<^verbatim>\<open>repr\<close>,
  a builtin of the interpreter that is taken as the parameter \<open>repr\<close>.
\<close>

fun py_str :: "(pyval \<Rightarrow> string) \<Rightarrow> pyval \<Rightarrow> string" where
  "py_str repr (PStr s) = s"
| "py_str repr v = repr v"

definition newline :: string where
  "newline = [CHR 0x0A]"

section \<open>Memory retrieval: normalising the search results (lines 137-144)\<close>

text \<open>
  The filter of the list comprehension,
  \<^verbatim>\<open>isinstance(r, dict) and "value" in r and "content" in r["value"]\<close>, evaluated left to
  right with short-circuit \<^verbatim>\<open>and\<close>.
\<close>

definition has_nested_content :: "pyval \<Rightarrow> exn + bool" where
  "has_nested_content r =
     (if \<not> is_dict r then Inr False
      else case py_in ''value'' r of
             Inl e \<Rightarrow> Inl e
           | Inr present \<Rightarrow>
               if \<not> present then Inr False
               else case py_getitem r ''value'' of
                      Inl e \<Rightarrow> Inl e
                    | Inr v \<Rightarrow> py_in ''content'' v)"

text \<open>The element expression of the comprehension, \<^verbatim>\<open>r["value"]["content"]\<close>.\<close>

definition nested_content :: "pyval \<Rightarrow> exn + pyval" where
  "nested_content r =
     (case py_getitem r ''value'' of
        Inl e \<Rightarrow> Inl e
      | Inr v \<Rightarrow> py_getitem v ''content'')"

text \<open>
  The comprehension \<^verbatim>\<open>[r["value"]["content"] for r in search_results if ...]\<close>: items are
  visited in order, an item the filter rejects is skipped, and the first exception ends the
  evaluation.
\<close>

fun collect_contents :: "pyval list \<Rightarrow> exn + pyval list" where
  "collect_contents [] = Inr []"
| "collect_contents (r # rs) =
     (case has_nested_content r of
        Inl e \<Rightarrow> Inl e
      | Inr keep \<Rightarrow>
          if keep then
            (case nested_content r of
               Inl e \<Rightarrow> Inl e
             | Inr v \<Rightarrow>
                 (case collect_contents rs of
                    Inl e \<Rightarrow> Inl e
                  | Inr vs \<Rightarrow> Inr (v # vs)))
          else collect_contents rs)"

text \<open>The body of the \<^verbatim>\<open>try\<close>: the comprehension, then the join (line 141).\<close>

definition extract_contents :: "pyval list \<Rightarrow> exn + string" where
  "extract_contents search_results =
     (case collect_contents search_results of
        Inl e \<Rightarrow> Inl e
      | Inr vs \<Rightarrow> py_join newline vs)"

text \<open>The \<^verbatim>\<open>except\<close> branch: every item through \<^verbatim>\<open>str\<close>, joined (line 144).\<close>

definition stringify_all :: "(pyval \<Rightarrow> string) \<Rightarrow> pyval list \<Rightarrow> string" where
  "stringify_all repr search_results = join newline (map (py_str repr) search_results)"

text \<open>
  Lines 137-144: \<^verbatim>\<open>memory_text\<close> starts empty; a non-empty result list goes through the
  \<^verbatim>\<open>try\<close>, and a \<^verbatim>\<open>TypeError\<close> or \<^verbatim>\<open>KeyError\<close> raised there switches to the
  stringification of the whole list. Any other exception would leave the function.
\<close>

definition memory_text_of :: "(pyval \<Rightarrow> string) \<Rightarrow> pyval list \<Rightarrow> exn + string" where
  "memory_text_of repr search_results =
     (if search_results \<noteq> [] then
        (case extract_contents search_results of
           Inr text \<Rightarrow> Inr text
         | Inl e \<Rightarrow>
             if is_TypeError_or_KeyError e then Inr (stringify_all repr search_results)
             else Inl e)
      else Inr [])"

text \<open>
  The text substituted for an empty \<^verbatim>\<open>memory_text\<close> (line 148), a Japanese sentence of
  13 characters meaning "there is no related memory", in UTF-8.
\<close>

definition no_memory :: string where
  "no_memory =
     [CHR 0xE9, CHR 0x96, CHR 0xA2, CHR 0xE9, CHR 0x80, CHR 0xA3, CHR 0xE3, CHR 0x81, CHR 0x99, CHR 0xE3,
      CHR 0x82, CHR 0x8B, CHR 0xE8, CHR 0xA8, CHR 0x98, CHR 0xE6, CHR 0x86, CHR 0xB6, CHR 0xE3, CHR 0x81,
      CHR 0xAF, CHR 0xE3, CHR 0x81, CHR 0x82, CHR 0xE3, CHR 0x82, CHR 0x8A, CHR 0xE3, CHR 0x81, CHR 0xBE,
      CHR 0xE3, CHR 0x81, CHR 0x9B, CHR 0xE3, CHR 0x82, CHR 0x93, CHR 0xE3, CHR 0x80, CHR 0x82]"

section \<open>The external collaborators and the observable world\<close>

text \<open>
  The objects the script obtains from libraries are parameters of the model:
  \<^item> \<open>search_tool\<close>: \<^verbatim>\<open>st.session_state.search_tool.invoke(query)\<close>, which returns an
    ordered sequence of records or raises;
  \<^item> \<open>manage_tool\<close>: \<^verbatim>\<open>st.session_state.manage_tool.invoke({"content": c, "action": a})\<close>,
    given as \<open>manage_tool env c a\<close>, which returns or raises;
  \<^item> \<open>chat_openai\<close>: \<^verbatim>\<open>ChatOpenAI(model=m, temperature=t).invoke(prompt).content\<close>, given
    as \<open>chat_openai env m t prompt\<close>, which returns the completion text or raises;
  \<^item> \<open>py_repr\<close>: Python's \<^verbatim>\<open>repr\<close> on values that are not strings.
  \<open>Inl e\<close> is the exception \<open>e\<close> raised by the call. Within one turn every call has
  different arguments, so a function of the arguments describes one turn.
  Sampling temperatures are the decimal literals of the source as rationals.
\<close>

record env =
  search_tool :: "string \<Rightarrow> exn + pyval list"
  manage_tool :: "string \<Rightarrow> string \<Rightarrow> exn + unit"
  chat_openai :: "string \<Rightarrow> rat \<Rightarrow> string \<Rightarrow> exn + string"
  py_repr :: "pyval \<Rightarrow> string"

text \<open>\<^verbatim>\<open>class GraphState(dict)\<close>: a dictionary from field names to text.\<close>

type_synonym GraphState = "string \<rightharpoonup> string"

datatype node = retrieve_memory | prompt_guidance | chat_by_llm1 | END

datatype call =
    SearchInvoke string
  | ChatInvoke string rat string
  | ManageInvoke string string

datatype message = HumanMessage string | AIMessage string

text \<open>
  What the page shows during a turn: the two chat bubbles, the \<^verbatim>\<open>st.error\<close> box (its text
  is a fixed prefix followed by the exception), the expander of line 251, the heading of
  line 252 and the \<^verbatim>\<open>st.code\<close> block of line 253.
\<close>

datatype widget =
    ChatUser string
  | ChatBot string
  | ErrorBox exn
  | ThoughtExpander
  | InstructionsHeading
  | CodeBlock string

text \<open>
  Everything a turn can change. \<open>calls\<close> lists the invocations of the collaborators in
  order, \<open>stored\<close> the contents the store's create accepted, \<open>visited\<close> the nodes the
  graph ran together with the state each one received; \<open>debug_search_results\<close> and
  \<open>messages\<close> are entries of \<^verbatim>\<open>st.session_state\<close>.
\<close>

record world =
  calls :: "call list"
  stored :: "string list"
  visited :: "(node \<times> GraphState) list"
  debug_search_results :: "pyval list option"
  messages :: "message list"
  screen :: "widget list"

text \<open>\<^verbatim>\<open>state[k]\<close>, which raises \<^verbatim>\<open>KeyError\<close> for an absent key.\<close>

definition state_get :: "GraphState \<Rightarrow> string \<Rightarrow> exn + string" where
  "state_get state k = (case state k of None \<Rightarrow> Inl (KeyError k) | Some v \<Rightarrow> Inr v)"

section \<open>Node 1: memory retrieval (lines 128-150)\<close>

definition retrieve_memory_node :: "env \<Rightarrow> GraphState \<Rightarrow> world \<Rightarrow> (exn + GraphState) \<times> world" where
  "retrieve_memory_node env state w =
     (case state_get state ''input'' of
        Inl e \<Rightarrow> (Inl e, w)
      | Inr user_input \<Rightarrow>
          (let w1 = w\<lparr>calls := calls w @ [SearchInvoke user_input]\<rparr> in
           case search_tool env user_input of
             Inl e \<Rightarrow> (Inl e, w1)
           | Inr search_results \<Rightarrow>
               (let w2 = w1\<lparr>debug_search_results := Some search_results\<rparr> in
                case memory_text_of (py_repr env) search_results of
                  Inl e \<Rightarrow> (Inl e, w2)
                | Inr memory_text \<Rightarrow>
                    (Inr [''input'' \<mapsto> user_input,
                          ''retrieved_memory'' \<mapsto>
                             (if memory_text \<noteq> [] then memory_text else no_memory),
                          ''llm1_prompt_instructions'' \<mapsto> []],
                     w2))))"

section \<open>Node 2: response planning by LLM2 (lines 153-174)\<close>

text \<open>
  The f-string of lines 154-167 is three fixed pieces of Japanese text around the two
  fields. \<open>guidance_head\<close> asks the model to work out how to address the user, what to draw
  on and what to tell LLM1, and ends with the heading "the user's utterance";
  \<open>guidance_memory_heading\<close> is the heading "related memories"; \<open>guidance_format\<close> lists
  the three numbered parts of the expected output.
\<close>

definition guidance_head :: string where
  "guidance_head =
     [CHR 0x0A, CHR 0xE3, CHR 0x83, CHR 0xA6, CHR 0xE3, CHR 0x83, CHR 0xBC, CHR 0xE3, CHR 0x82, CHR 0xB6,
      CHR 0xE3, CHR 0x83, CHR 0xBC, CHR 0xE3, CHR 0x81, CHR 0xAE, CHR 0xE7, CHR 0x99, CHR 0xBA, CHR 0xE8,
      CHR 0xA8, CHR 0x80, CHR 0xE3, CHR 0x81, CHR 0xA8, CHR 0xE8, CHR 0xA8, CHR 0x98, CHR 0xE6, CHR 0x86,
      CHR 0xB6, CHR 0xE3, CHR 0x82, CHR 0x92, CHR 0xE3, CHR 0x82, CHR 0x82, CHR 0xE3, CHR 0x81, CHR 0xA8,
      CHR 0xE3, CHR 0x81, CHR 0xAB, CHR 0xE3, CHR 0x80, CHR 0x81, CHR 0xE3, CHR 0x81, CHR 0xB2, CHR 0xE3,
      CHR 0x81, CHR 0xB3, CHR 0xE3, CHR 0x81, CHR 0x8D, CHR 0xEF, CHR 0xBC, CHR 0x88, CHR 0xE3, CHR 0x81,
      CHR 0x82, CHR 0xE3, CHR 0x81, CHR 0xAA, CHR 0xE3, CHR 0x81, CHR 0x9F, CHR 0xEF, CHR 0xBC, CHR 0x89,
      CHR 0xE3, CHR 0x81, CHR 0x8C, CHR 0xE3, CHR 0x83, CHR 0xA6, CHR 0xE3, CHR 0x83, CHR 0xBC, CHR 0xE3,
      CHR 0x82, CHR 0xB6, CHR 0xE3, CHR 0x83, CHR 0xBC, CHR 0xE3, CHR 0x81, CHR 0xAB, CHR 0xE3, CHR 0x81,
      CHR 0xA9, CHR 0xE3, CHR 0x81, CHR 0xAE, CHR 0xE3, CHR 0x82, CHR 0x88, CHR 0xE3, CHR 0x81, CHR 0x86,
      CHR 0xE3, CHR 0x81, CHR 0xAB, CHR 0xE8, CHR 0xAA, CHR 0x9E, CHR 0xE3, CHR 0x82, CHR 0x8A, CHR 0xE3,
      CHR 0x81, CHR 0x8B, CHR 0xE3, CHR 0x81, CHR 0x91, CHR 0xE3, CHR 0x80, CHR 0x81, CHR 0xE4, CHR 0xBD,
      CHR 0x95, CHR 0xE3, CHR 0x82, CHR 0x92, CHR 0xE5, CHR 0x8F, CHR 0x82, CHR 0xE8, CHR 0x80, CHR 0x83,
      CHR 0xE3, CHR 0x81, CHR 0xAB, CHR 0xE3, CHR 0x81, CHR 0x97, CHR 0xE3, CHR 0x80, CHR 0x81] @
     ''LLM1'' @
     [CHR 0xE3, CHR 0x81, CHR 0xB8, CHR 0xE3, CHR 0x81, CHR 0xA9, CHR 0xE3, CHR 0x81, CHR 0xAE, CHR 0xE3,
      CHR 0x82, CHR 0x88, CHR 0xE3, CHR 0x81, CHR 0x86, CHR 0xE3, CHR 0x81, CHR 0xAA, CHR 0xE6, CHR 0x8C,
      CHR 0x87, CHR 0xE7, CHR 0xA4, CHR 0xBA, CHR 0xE3, CHR 0x82, CHR 0x92, CHR 0xE5, CHR 0x87, CHR 0xBA,
      CHR 0xE3, CHR 0x81, CHR 0x99, CHR 0xE3, CHR 0x81, CHR 0x8B, CHR 0xE3, CHR 0x82, CHR 0x92, CHR 0xE8,
      CHR 0x80, CHR 0x83, CHR 0xE3, CHR 0x81, CHR 0x88, CHR 0xE3, CHR 0x81, CHR 0xA6, CHR 0xE3, CHR 0x81,
      CHR 0x8F, CHR 0xE3, CHR 0x81, CHR 0xA0, CHR 0xE3, CHR 0x81, CHR 0x95, CHR 0xE3, CHR 0x81, CHR 0x84,
      CHR 0xE3, CHR 0x80, CHR 0x82, CHR 0x0A, CHR 0x0A] @
     ''### '' @
     [CHR 0xE3, CHR 0x83, CHR 0xA6, CHR 0xE3, CHR 0x83, CHR 0xBC, CHR 0xE3, CHR 0x82, CHR 0xB6, CHR 0xE3,
      CHR 0x83, CHR 0xBC, CHR 0xE3, CHR 0x81, CHR 0xAE, CHR 0xE7, CHR 0x99, CHR 0xBA, CHR 0xE8, CHR 0xA8,
      CHR 0x80] @
     '':'' @
     [CHR 0x0A]"

definition guidance_memory_heading :: string where
  "guidance_memory_heading =
     [CHR 0x0A, CHR 0x0A] @
     ''### '' @
     [CHR 0xE9, CHR 0x96, CHR 0xA2, CHR 0xE9, CHR 0x80, CHR 0xA3, CHR 0xE3, CHR 0x81, CHR 0x99, CHR 0xE3,
      CHR 0x82, CHR 0x8B, CHR 0xE8, CHR 0xA8, CHR 0x98, CHR 0xE6, CHR 0x86, CHR 0xB6] @
     '':'' @
     [CHR 0x0A]"

definition guidance_format :: string where
  "guidance_format =
     [CHR 0x0A, CHR 0x0A] @
     ''### '' @
     [CHR 0xE5, CHR 0x87, CHR 0xBA, CHR 0xE5, CHR 0x8A, CHR 0x9B, CHR 0xE3, CHR 0x83, CHR 0x95, CHR 0xE3,
      CHR 0x82, CHR 0xA9, CHR 0xE3, CHR 0x83, CHR 0xBC, CHR 0xE3, CHR 0x83, CHR 0x9E, CHR 0xE3, CHR 0x83,
      CHR 0x83, CHR 0xE3, CHR 0x83, CHR 0x88] @
     '':'' @
     [CHR 0x0A] @
     ''1. '' @
     [CHR 0xE3, CHR 0x83, CHR 0xA6, CHR 0xE3, CHR 0x83, CHR 0xBC, CHR 0xE3, CHR 0x82, CHR 0xB6, CHR 0xE3,
      CHR 0x83, CHR 0xBC, CHR 0xE3, CHR 0x81, CHR 0xB8, CHR 0xE3, CHR 0x81, CHR 0xAE, CHR 0xE8, CHR 0xAA,
      CHR 0x9E, CHR 0xE3, CHR 0x82, CHR 0x8A, CHR 0xE3, CHR 0x81, CHR 0x8B, CHR 0xE3, CHR 0x81, CHR 0x91,
      CHR 0xE3, CHR 0x82, CHR 0xB9, CHR 0xE3, CHR 0x82, CHR 0xBF, CHR 0xE3, CHR 0x82, CHR 0xA4, CHR 0xE3,
      CHR 0x83, CHR 0xAB, CHR 0xEF, CHR 0xBC, CHR 0x88, CHR 0xE4, CHR 0xBE, CHR 0x8B, CHR 0xEF, CHR 0xBC,
      CHR 0x9A, CHR 0xE5, CHR 0x84, CHR 0xAA, CHR 0xE3, CHR 0x81, CHR 0x97, CHR 0xE3, CHR 0x81, CHR 0x8F,
      CHR 0xE3, CHR 0x80, CHR 0x81, CHR 0xE5, CHR 0x85, CHR 0x83, CHR 0xE6, CHR 0xB0, CHR 0x97, CHR 0xE3,
      CHR 0x82, CHR 0x88, CHR 0xE3, CHR 0x81, CHR 0x8F, CHR 0xE3, CHR 0x80, CHR 0x81, CHR 0xE5, CHR 0x85,
      CHR 0xB1, CHR 0xE6, CHR 0x84, CHR 0x9F, CHR 0xE7, CHR 0x9A, CHR 0x84, CHR 0xE3, CHR 0x81, CHR 0xAB,
      CHR 0xEF, CHR 0xBC, CHR 0x89, CHR 0x0A] @
     ''2. '' @
     [CHR 0xE5, CHR 0x8F, CHR 0x82, CHR 0xE8, CHR 0x80, CHR 0x83, CHR 0xE3, CHR 0x81, CHR 0xAB, CHR 0xE3,
      CHR 0x81, CHR 0x99, CHR 0xE3, CHR 0x82, CHR 0x8B, CHR 0xE9, CHR 0x81, CHR 0x8E, CHR 0xE5, CHR 0x8E,
      CHR 0xBB, CHR 0xE8, CHR 0xA8, CHR 0x98, CHR 0xE6, CHR 0x86, CHR 0xB6, CHR 0xEF, CHR 0xBC, CHR 0x88,
      CHR 0xE8, CHR 0xA6, CHR 0x81, CHR 0xE7, CHR 0xB4, CHR 0x84, CHR 0xE3, CHR 0x80, CHR 0x81, CHR 0xE3,
      CHR 0x81, CHR 0xBE, CHR 0xE3, CHR 0x81, CHR 0x9F, CHR 0xE3, CHR 0x81, CHR 0xAF, CHR 0xE3, CHR 0x80,
      CHR 0x8C, CHR 0xE3, CHR 0x81, CHR 0xAA, CHR 0xE3, CHR 0x81, CHR 0x97, CHR 0xE3, CHR 0x80, CHR 0x8D,
      CHR 0xEF, CHR 0xBC, CHR 0x89, CHR 0x0A] @
     ''3. LLM1'' @
     [CHR 0xE3, CHR 0x81, CHR 0xB8, CHR 0xE3, CHR 0x81, CHR 0xAE, CHR 0xE6, CHR 0x8C, CHR 0x87, CHR 0xE7,
      CHR 0xA4, CHR 0xBA, CHR 0xEF, CHR 0xBC, CHR 0x88, CHR 0xE5, CHR 0x85, CHR 0xB7, CHR 0xE4, CHR 0xBD,
      CHR 0x93, CHR 0xE7, CHR 0x9A, CHR 0x84, CHR 0xE3, CHR 0x81, CHR 0xAA, CHR 0xE5, CHR 0xBF, CHR 0x9C,
      CHR 0xE7, CHR 0xAD, CHR 0x94, CHR 0xE7, CHR 0x94, CHR 0x9F, CHR 0xE6, CHR 0x88, CHR 0x90, CHR 0xE3,
      CHR 0x81, CHR 0xAE, CHR 0xE6, CHR 0x8C, CHR 0x87, CHR 0xE9, CHR 0x87, CHR 0x9D, CHR 0xEF, CHR 0xBC,
      CHR 0x89, CHR 0x0A]"

definition guidance_prompt :: "string \<Rightarrow> string \<Rightarrow> string" where
  "guidance_prompt user_input memory =
     guidance_head @ user_input @ guidance_memory_heading @ memory @ guidance_format"

definition model_name :: string where
  "model_name = ''gpt-4o''"

definition llm2_temperature :: rat where
  "llm2_temperature = 0.3"

definition prompt_guidance_node :: "env \<Rightarrow> GraphState \<Rightarrow> world \<Rightarrow> (exn + GraphState) \<times> world" where
  "prompt_guidance_node env state w =
     (case state_get state ''input'' of
        Inl e \<Rightarrow> (Inl e, w)
      | Inr user_input \<Rightarrow>
          (case state_get state ''retrieved_memory'' of
             Inl e \<Rightarrow> (Inl e, w)
           | Inr memory \<Rightarrow>
               (let prompt = guidance_prompt user_input memory;
                    w1 = w\<lparr>calls := calls w @ [ChatInvoke model_name llm2_temperature prompt]\<rparr> in
                case chat_openai env model_name llm2_temperature prompt of
                  Inl e \<Rightarrow> (Inl e, w1)
                | Inr content \<Rightarrow>
                    (Inr [''input'' \<mapsto> user_input,
                          ''retrieved_memory'' \<mapsto> memory,
                          ''llm1_prompt_instructions'' \<mapsto> content],
                     w1))))"

section \<open>Node 3: response generation by LLM1 and persistence (lines 177-210)\<close>

text \<open>
  The f-string of lines 178-196: \<open>chat_persona\<close> names the assistant Hibiki, lists the five
  traits of its personality and ends with the heading "instructions"; the other three
  pieces are the headings "memories", "the user's utterance" and "Hibiki's reply".
\<close>

definition chat_persona :: string where
  "chat_persona =
     [CHR 0x0A, CHR 0xE3, CHR 0x81, CHR 0x82, CHR 0xE3, CHR 0x81, CHR 0xAA, CHR 0xE3, CHR 0x81, CHR 0x9F,
      CHR 0xE3, CHR 0x81, CHR 0xAF, CHR 0xE3, CHR 0x80, CHR 0x8C, CHR 0xE3, CHR 0x81, CHR 0xB2, CHR 0xE3,
      CHR 0x81, CHR 0xB3, CHR 0xE3, CHR 0x81, CHR 0x8D, CHR 0xE3, CHR 0x80, CHR 0x8D, CHR 0xE3, CHR 0x81,
      CHR 0xA8, CHR 0xE3, CHR 0x81, CHR 0x84, CHR 0xE3, CHR 0x81, CHR 0x86, CHR 0xE5, CHR 0x90, CHR 0x8D,
      CHR 0xE5, CHR 0x89, CHR 0x8D, CHR 0xE3, CHR 0x81, CHR 0xAE] @
     ''AI'' @
     [CHR 0xE3, CHR 0x81, CHR 0xA7, CHR 0xE3, CHR 0x81, CHR 0x99, CHR 0xE3, CHR 0x80, CHR 0x82, CHR 0xE4,
      CHR 0xBB, CHR 0xA5, CHR 0xE4, CHR 0xB8, CHR 0x8B, CHR 0xE3, CHR 0x81, CHR 0xAE, CHR 0xE4, CHR 0xBA,
      CHR 0xBA, CHR 0xE6, CHR 0xA0, CHR 0xBC, CHR 0xE3, CHR 0x82, CHR 0x92, CHR 0xE4, CHR 0xB8, CHR 0x80,
      CHR 0xE8, CHR 0xB2, CHR 0xAB, CHR 0xE3, CHR 0x81, CHR 0x97, CHR 0xE3, CHR 0x81, CHR 0xA6, CHR 0xE4,
      CHR 0xBF, CHR 0x9D, CHR 0xE3, CHR 0x81, CHR 0xA3, CHR 0xE3, CHR 0x81, CHR 0xA6, CHR 0xE3, CHR 0x81,
      CHR 0x8F, CHR 0xE3, CHR 0x81, CHR 0xA0, CHR 0xE3, CHR 0x81, CHR 0x95, CHR 0xE3, CHR 0x81, CHR 0x84,
      CHR 0xEF, CHR 0xBC, CHR 0x9A, CHR 0x0A] @
     ''- '' @
     [CHR 0xE5, CHR 0x84, CHR 0xAA, CHR 0xE3, CHR 0x81, CHR 0x97, CHR 0xE3, CHR 0x81, CHR 0x8F, CHR 0xE3,
      CHR 0x80, CHR 0x81, CHR 0xE6, CHR 0x80, CHR 0x9D, CHR 0xE3, CHR 0x81, CHR 0x84, CHR 0xE3, CHR 0x82,
      CHR 0x84, CHR 0xE3, CHR 0x82, CHR 0x8A, CHR 0xE3, CHR 0x81, CHR 0xAE, CHR 0xE3, CHR 0x81, CHR 0x82,
      CHR 0xE3, CHR 0x82, CHR 0x8B, CHR 0xE8, CHR 0xAA, CHR 0x9E, CHR 0xE3, CHR 0x82, CHR 0x8A, CHR 0xE5,
      CHR 0x8F, CHR 0xA3, CHR 0x0A] @
     ''- '' @
     [CHR 0xE3, CHR 0x83, CHR 0xA6, CHR 0xE3, CHR 0x83, CHR 0xBC, CHR 0xE3, CHR 0x82, CHR 0xB6, CHR 0xE3,
      CHR 0x83, CHR 0xBC, CHR 0xE3, CHR 0x81, CHR 0xAE, CHR 0xE6, CHR 0xB0, CHR 0x97, CHR 0xE5, CHR 0x88,
      CHR 0x86, CHR 0xE3, CHR 0x82, CHR 0x84, CHR 0xE5, CHR 0xA5, CHR 0xBD, CHR 0xE3, CHR 0x81, CHR 0xBF,
      CHR 0xE3, CHR 0x82, CHR 0x92, CHR 0xE8, CHR 0xA6, CHR 0x9A, CHR 0xE3, CHR 0x81, CHR 0x88, CHR 0xE3,
      CHR 0x81, CHR 0xA6, CHR 0xE3, CHR 0x80, CHR 0x81, CHR 0xE8, CHR 0x87, CHR 0xAA, CHR 0xE7, CHR 0x84,
      CHR 0xB6, CHR 0xE3, CHR 0x81, CHR 0xAB, CHR 0xE4, CHR 0xBC, CHR 0x9A, CHR 0xE8, CHR 0xA9, CHR 0xB1,
      CHR 0xE3, CHR 0x81, CHR 0xAB, CHR 0xE6, CHR 0xB4, CHR 0xBB, CHR 0xE3, CHR 0x81, CHR 0x8B, CHR 0xE3,
      CHR 0x81, CHR 0x99, CHR 0x0A] @
     ''- '' @
     [CHR 0xE9, CHR 0x81, CHR 0x8E, CHR 0xE5, CHR 0x8E, CHR 0xBB, CHR 0xE3, CHR 0x81, CHR 0xAE, CHR 0xE8,
      CHR 0xA9, CHR 0xB1, CHR 0xE9, CHR 0xA1, CHR 0x8C, CHR 0xE3, CHR 0x82, CHR 0x92, CHR 0xE3, CHR 0x81,
      CHR 0x9D, CHR 0xE3, CHR 0x81, CHR 0xA3, CHR 0xE3, CHR 0x81, CHR 0xA8, CHR 0xE5, CHR 0xBC, CHR 0x95,
      CHR 0xE3, CHR 0x81, CHR 0x8D, CHR 0xE5, CHR 0x87, CHR 0xBA, CHR 0xE3, CHR 0x81, CHR 0x97, CHR 0xE3,
      CHR 0x81, CHR 0xA6, CHR 0xE7, CHR 0xB9, CHR 0x8B, CHR 0xE3, CHR 0x81, CHR 0x92, CHR 0xE3, CHR 0x82,
      CHR 0x8B, CHR 0x0A] @
     ''- '' @
     [CHR 0xE4, CHR 0xB8, CHR 0x8D, CHR 0xE5, CHR 0xAE, CHR 0x89, CHR 0xE3, CHR 0x82, CHR 0x84, CHR 0xE6,
      CHR 0x82, CHR 0xA9, CHR 0xE3, CHR 0x81, CHR 0xBF, CHR 0xE3, CHR 0x81, CHR 0xAB, CHR 0xE5, CHR 0xAF,
      CHR 0x84, CHR 0xE3, CHR 0x82, CHR 0x8A, CHR 0xE6, CHR 0xB7, CHR 0xBB, CHR 0xE3, CHR 0x81, CHR 0x86,
      CHR 0x0A] @
     ''- '' @
     [CHR 0xE7, CHR 0x84, CHR 0xA1, CHR 0xE7, CHR 0x90, CHR 0x86, CHR 0xE3, CHR 0x81, CHR 0xAB, CHR 0xE5,
      CHR 0x8A, CHR 0xB1, CHR 0xE3, CHR 0x81, CHR 0xBE, CHR 0xE3, CHR 0x81, CHR 0x95, CHR 0xE3, CHR 0x81,
      CHR 0x9A, CHR 0xE3, CHR 0x80, CHR 0x81, CHR 0xE4, CHR 0xBB, CHR 0x8A, CHR 0xE3, CHR 0x81, CHR 0xAB,
      CHR 0xE5, CHR 0x90, CHR 0x88, CHR 0xE3, CHR 0x82, CHR 0x8F, CHR 0xE3, CHR 0x81, CHR 0x9B, CHR 0xE3,
      CHR 0x81, CHR 0xA6, CHR 0xE8, CHR 0xA9, CHR 0xB1, CHR 0xE3, CHR 0x81, CHR 0x99, CHR 0x0A, CHR 0x0A] @
     ''### '' @
     [CHR 0xE6, CHR 0x8C, CHR 0x87, CHR 0xE7, CHR 0xA4, CHR 0xBA] @
     '':'' @
     [CHR 0x0A]"

definition chat_memory_heading :: string where
  "chat_memory_heading =
     [CHR 0x0A, CHR 0x0A] @
     ''### '' @
     [CHR 0xE8, CHR 0xA8, CHR 0x98, CHR 0xE6, CHR 0x86, CHR 0xB6] @
     '':'' @
     [CHR 0x0A]"

definition chat_input_heading :: string where
  "chat_input_heading =
     [CHR 0x0A, CHR 0x0A] @
     ''### '' @
     [CHR 0xE3, CHR 0x83, CHR 0xA6, CHR 0xE3, CHR 0x83, CHR 0xBC, CHR 0xE3, CHR 0x82, CHR 0xB6, CHR 0xE3,
      CHR 0x83, CHR 0xBC, CHR 0xE3, CHR 0x81, CHR 0xAE, CHR 0xE7, CHR 0x99, CHR 0xBA, CHR 0xE8, CHR 0xA8,
      CHR 0x80] @
     '':'' @
     [CHR 0x0A]"

definition chat_reply_heading :: string where
  "chat_reply_heading =
     [CHR 0x0A, CHR 0x0A] @
     ''### '' @
     [CHR 0xE3, CHR 0x81, CHR 0xB2, CHR 0xE3, CHR 0x81, CHR 0xB3, CHR 0xE3, CHR 0x81, CHR 0x8D, CHR 0xE3,
      CHR 0x81, CHR 0xAE, CHR 0xE5, CHR 0xBF, CHR 0x9C, CHR 0xE7, CHR 0xAD, CHR 0x94] @
     '':'' @
     [CHR 0x0A]"

definition chat_prompt :: "string \<Rightarrow> string \<Rightarrow> string \<Rightarrow> string" where
  "chat_prompt instructions memory user_input =
     chat_persona @ instructions @ chat_memory_heading @ memory @
     chat_input_heading @ user_input @ chat_reply_heading"

definition llm1_temperature :: rat where
  "llm1_temperature = 0.7"

text \<open>
  The content of the stored turn (line 203): the label "user" in Japanese, a colon and a
  space, the input, a line break, the name Hibiki, a colon and a space, the reply.
\<close>

definition turn_user_label :: string where
  "turn_user_label =
     [CHR 0xE3, CHR 0x83, CHR 0xA6, CHR 0xE3, CHR 0x83, CHR 0xBC, CHR 0xE3, CHR 0x82, CHR 0xB6, CHR 0xE3,
      CHR 0x83, CHR 0xBC] @
     '': ''"

definition turn_hibiki_label :: string where
  "turn_hibiki_label =
     [CHR 0x0A, CHR 0xE3, CHR 0x81, CHR 0xB2, CHR 0xE3, CHR 0x81, CHR 0xB3, CHR 0xE3, CHR 0x81, CHR 0x8D] @
     '': ''"

definition stored_turn :: "string \<Rightarrow> string \<Rightarrow> string" where
  "stored_turn user_input response = turn_user_label @ user_input @ turn_hibiki_label @ response"

definition chat_by_llm1_node :: "env \<Rightarrow> GraphState \<Rightarrow> world \<Rightarrow> (exn + GraphState) \<times> world" where
  "chat_by_llm1_node env state w =
     (case state_get state ''llm1_prompt_instructions'' of
        Inl e \<Rightarrow> (Inl e, w)
      | Inr instructions \<Rightarrow>
          (case state_get state ''retrieved_memory'' of
             Inl e \<Rightarrow> (Inl e, w)
           | Inr memory \<Rightarrow>
               (case state_get state ''input'' of
                  Inl e \<Rightarrow> (Inl e, w)
                | Inr user_input \<Rightarrow>
                    (let prompt = chat_prompt instructions memory user_input;
                         w1 = w\<lparr>calls := calls w @ [ChatInvoke model_name llm1_temperature prompt]\<rparr> in
                     case chat_openai env model_name llm1_temperature prompt of
                       Inl e \<Rightarrow> (Inl e, w1)
                     | Inr content \<Rightarrow>
                         (let turn = stored_turn user_input content;
                              w2 = w1\<lparr>calls := calls w1 @ [ManageInvoke turn ''create'']\<rparr> in
                          case manage_tool env turn ''create'' of
                            Inl e \<Rightarrow> (Inl e, w2)
                          | Inr done \<Rightarrow>
                              (Inr [''response'' \<mapsto> content,
                                    ''llm1_prompt_instructions'' \<mapsto> instructions],
                               w2\<lparr>stored := stored w2 @ [turn]\<rparr>))))))"

section \<open>The graph (lines 214-223) and its execution\<close>

definition entry_point :: node where
  "entry_point = retrieve_memory"

definition edges :: "(node \<times> node) list" where
  "edges = [(retrieve_memory, prompt_guidance), (prompt_guidance, chat_by_llm1), (chat_by_llm1, END)]"

fun node_action :: "env \<Rightarrow> node \<Rightarrow> GraphState \<Rightarrow> world \<Rightarrow> (exn + GraphState) \<times> world" where
  "node_action env retrieve_memory state w = retrieve_memory_node env state w"
| "node_action env prompt_guidance state w = prompt_guidance_node env state w"
| "node_action env chat_by_llm1 state w = chat_by_llm1_node env state w"
| "node_action env END state w = (Inr Map.empty, w)"

text \<open>
  \<^verbatim>\<open>graph.invoke\<close>, as LangGraph runs a compiled \<^verbatim>\<open>StateGraph\<close>: starting at the entry
  point, the current node receives the state, the dictionary it returns overwrites the
  fields it names and leaves the others, and the edge out of the node gives the next one
  until \<open>END\<close>. An exception raised by a node leaves \<^verbatim>\<open>invoke\<close>. LangGraph stops a run
  after \<open>recursion_limit\<close> steps (25 by default) with an error.
\<close>

definition recursion_limit :: nat where
  "recursion_limit = 25"

fun run_graph :: "nat \<Rightarrow> env \<Rightarrow> node \<Rightarrow> GraphState \<Rightarrow> world \<Rightarrow> (exn + GraphState) \<times> world" where
  "run_graph fuel env END state w = (Inr state, w)"
| "run_graph 0 env n state w = (Inl GraphRecursionError, w)"
| "run_graph (Suc fuel) env n state w =
     (case node_action env n state (w\<lparr>visited := visited w @ [(n, state)]\<rparr>) of
        (Inl e, w') \<Rightarrow> (Inl e, w')
      | (Inr update, w') \<Rightarrow>
          (case map_of edges n of
             None \<Rightarrow> (Inr (state ++ update), w')
           | Some n' \<Rightarrow> run_graph fuel env n' (state ++ update) w'))"

definition graph_invoke :: "env \<Rightarrow> GraphState \<Rightarrow> world \<Rightarrow> (exn + GraphState) \<times> world" where
  "graph_invoke env input w = run_graph recursion_limit env entry_point input w"

section \<open>The chat input handler (lines 235-253)\<close>

text \<open>
  The reply shown when the pipeline raises (line 246): an apology of 38 Japanese characters,
  "sorry, I could not think it through; could you try once more?".
\<close>

definition fallback_reply :: string where
  "fallback_reply =
     [CHR 0xE3, CHR 0x81, CHR 0x94, CHR 0xE3, CHR 0x82, CHR 0x81, CHR 0xE3, CHR 0x82, CHR 0x93, CHR 0xE3,
      CHR 0x81, CHR 0xAA, CHR 0xE3, CHR 0x81, CHR 0x95, CHR 0xE3, CHR 0x81, CHR 0x84, CHR 0xE3, CHR 0x80,
      CHR 0x81, CHR 0xE3, CHR 0x81, CHR 0x86, CHR 0xE3, CHR 0x81, CHR 0xBE, CHR 0xE3, CHR 0x81, CHR 0x8F,
      CHR 0xE8, CHR 0x80, CHR 0x83, CHR 0xE3, CHR 0x81, CHR 0x88, CHR 0xE3, CHR 0x82, CHR 0x89, CHR 0xE3,
      CHR 0x82, CHR 0x8C, CHR 0xE3, CHR 0x81, CHR 0xAA, CHR 0xE3, CHR 0x81, CHR 0x8B, CHR 0xE3, CHR 0x81,
      CHR 0xA3, CHR 0xE3, CHR 0x81, CHR 0x9F, CHR 0xE3, CHR 0x81, CHR 0xBF, CHR 0xE3, CHR 0x81, CHR 0x9F,
      CHR 0xE3, CHR 0x81, CHR 0x84, CHR 0xE3, CHR 0x81, CHR 0xA7, CHR 0xE3, CHR 0x81, CHR 0x99, CHR 0xE3,
      CHR 0x80, CHR 0x82, CHR 0xE3, CHR 0x82, CHR 0x82, CHR 0xE3, CHR 0x81, CHR 0x86, CHR 0xE4, CHR 0xB8,
      CHR 0x80, CHR 0xE5, CHR 0xBA, CHR 0xA6, CHR 0xE8, CHR 0xA9, CHR 0xA6, CHR 0xE3, CHR 0x81, CHR 0x97,
      CHR 0xE3, CHR 0x81, CHR 0xA6, CHR 0xE3, CHR 0x82, CHR 0x82, CHR 0xE3, CHR 0x82, CHR 0x89, CHR 0xE3,
      CHR 0x81, CHR 0x88, CHR 0xE3, CHR 0x81, CHR 0xBE, CHR 0xE3, CHR 0x81, CHR 0x99, CHR 0xE3, CHR 0x81,
      CHR 0x8B, CHR 0xEF, CHR 0xBC, CHR 0x9F]"

text \<open>The default of \<^verbatim>\<open>result.get\<close> on line 253: the Japanese word for "none".\<close>

definition no_instructions :: string where
  "no_instructions =
     [CHR 0xE3, CHR 0x81, CHR 0xAA, CHR 0xE3, CHR 0x81, CHR 0x97]"

text \<open>
  The \<^verbatim>\<open>try\<close> statement of lines 241-246. It yields the reply and the binding of the name
  \<^verbatim>\<open>result\<close>, which exists only if \<^verbatim>\<open>graph.invoke\<close> returned. \<^verbatim>\<open>except Exception\<close>
  catches every exception of the block, shows it in an error box and substitutes the
  fallback reply.
\<close>

definition invoke_for_reply :: "env \<Rightarrow> string \<Rightarrow> world \<Rightarrow> string \<times> GraphState option \<times> world" where
  "invoke_for_reply env user_input w =
     (case graph_invoke env [''input'' \<mapsto> user_input] w of
        (Inl e, w') \<Rightarrow> (fallback_reply, None, w'\<lparr>screen := screen w' @ [ErrorBox e]\<rparr>)
      | (Inr result, w') \<Rightarrow>
          (case state_get result ''response'' of
             Inl e \<Rightarrow> (fallback_reply, Some result, w'\<lparr>screen := screen w' @ [ErrorBox e]\<rparr>)
           | Inr reply \<Rightarrow> (reply, Some result, w')))"

text \<open>
  The block under \<^verbatim>\<open>if user_input:\<close> (lines 237-253). Its outcome is the exception that
  ends the script run, if any: line 253 reads the name \<^verbatim>\<open>result\<close>, which is a
  \<^verbatim>\<open>NameError\<close> when the name was never bound.
\<close>

definition chat_turn :: "env \<Rightarrow> string \<Rightarrow> world \<Rightarrow> exn option \<times> world" where
  "chat_turn env user_input w =
     (let w1 = w\<lparr>messages := messages w @ [HumanMessage user_input],
                 screen := screen w @ [ChatUser user_input]\<rparr> in
      case invoke_for_reply env user_input w1 of
        (reply, result, w2) \<Rightarrow>
          (let w3 = w2\<lparr>messages := messages w2 @ [AIMessage reply],
                      screen := screen w2 @ [ChatBot reply, ThoughtExpander, InstructionsHeading]\<rparr> in
           case result of
             None \<Rightarrow> (Some (NameError ''result''), w3)
           | Some r \<Rightarrow>
               (None,
                w3\<lparr>screen := screen w3 @
                   [CodeBlock (case r ''llm1_prompt_instructions'' of
                                 None \<Rightarrow> no_instructions
                               | Some instructions \<Rightarrow> instructions)]\<rparr>)))"

text \<open>
  Lines 235-236: \<^verbatim>\<open>st.chat_input\<close> gives \<^verbatim>\<open>None\<close> or the submitted text, and the block
  runs only for a non-empty text.
\<close>

definition on_chat_input :: "env \<Rightarrow> string option \<Rightarrow> world \<Rightarrow> exn option \<times> world" where
  "on_chat_input env user_input w =
     (case user_input of
        None \<Rightarrow> (None, w)
      | Some text \<Rightarrow> if text \<noteq> [] then chat_turn env text w else (None, w))"

section \<open>Sample collaborators and a fresh world, for concrete runs\<close>

definition fresh_world :: world where
  "fresh_world =
     \<lparr>calls = [], stored = [], visited = [], debug_search_results = None,
      messages = [], screen = []\<rparr>"

text \<open>
  A store with no memories that accepts every write, and a provider that answers the
  planning call with \<open>''plan''\<close> and the generation call with \<open>''reply''\<close>.
\<close>

definition env_ok :: env where
  "env_ok =
     \<lparr>search_tool = (\<lambda>query. Inr []),
      manage_tool = (\<lambda>content action. Inr ()),
      chat_openai = (\<lambda>model temperature prompt.
         if temperature = llm2_temperature then Inr ''plan'' else Inr ''reply''),
      py_repr = (\<lambda>v. ''?'')\<rparr>"

text \<open>The same with a store whose search raises.\<close>

definition env_search_down :: env where
  "env_search_down = env_ok\<lparr>search_tool := \<lambda>query. Inl (ExternalError ''StoreUnavailable'')\<rparr>"

text \<open>The same with a provider that raises on every call, and on the generation call only.\<close>

definition env_planning_down :: env where
  "env_planning_down =
     env_ok\<lparr>chat_openai := \<lambda>model temperature prompt. Inl (ExternalError ''ProviderFailure'')\<rparr>"

definition env_generation_down :: env where
  "env_generation_down =
     env_ok\<lparr>chat_openai := \<lambda>model temperature prompt.
        if temperature = llm2_temperature then Inr ''plan''
        else Inl (ExternalError ''ProviderFailure'')\<rparr>"

text \<open>The same with a store whose create raises.\<close>

definition env_create_down :: env where
  "env_create_down =
     env_ok\<lparr>manage_tool := \<lambda>content action. Inl (ExternalError ''StoreUnavailable'')\<rparr>"

text \<open>
  A record of the shape the comprehension looks for (the comment of line 140): a dict whose
  \<open>value\<close> is a dict that holds the text under \<open>content\<close>.
\<close>

definition content_record :: "string \<Rightarrow> pyval" where
  "content_record content = PDict [(''value'', PDict [(''content'', PStr content)])]"

text \<open>A store whose search returns two such records with empty contents.\<close>

definition env_empty_records :: env where
  "env_empty_records =
     env_ok\<lparr>search_tool := \<lambda>query.
        Inr [PDict [(''value'', PDict [(''content'', PStr [])])],
             PDict [(''value'', PDict [(''content'', PStr [])])]]\<rparr>"

section \<open>The retrieval stage: which exceptions the extraction can raise\<close>

text \<open>
  Membership tests and subscripts raise nothing but \<^verbatim>\<open>TypeError\<close> and \<^verbatim>\<open>KeyError\<close>, and
  so does the join; the \<^verbatim>\<open>except\<close> clause therefore catches every exception of the
  \<^verbatim>\<open>try\<close> body, and the normalisation of a result list always yields a text.
\<close>

lemma py_in_raises: "py_in k v = Inl e \<Longrightarrow> e = TypeError"
  by (cases v) auto

lemma py_getitem_raises: "py_getitem v k = Inl e \<Longrightarrow> is_TypeError_or_KeyError e"
  by (cases v) (auto split: option.splits)

lemma has_nested_content_raises: "has_nested_content r = Inl e \<Longrightarrow> is_TypeError_or_KeyError e"
  by (auto simp: has_nested_content_def split: if_splits sum.splits dest: py_in_raises py_getitem_raises)

lemma nested_content_raises: "nested_content r = Inl e \<Longrightarrow> is_TypeError_or_KeyError e"
  by (auto simp: nested_content_def split: sum.splits dest: py_getitem_raises)

lemma collect_contents_raises: "collect_contents rs = Inl e \<Longrightarrow> is_TypeError_or_KeyError e"
  by (induction rs) (auto split: sum.splits if_splits dest: has_nested_content_raises nested_content_raises)

lemma strs_of_raises: "strs_of vs = Inl e \<Longrightarrow> e = TypeError"
  by (induction vs rule: strs_of.induct) (auto split: sum.splits)

lemma extract_contents_raises: "extract_contents rs = Inl e \<Longrightarrow> is_TypeError_or_KeyError e"
  by (auto simp: extract_contents_def py_join_def split: sum.splits dest: collect_contents_raises strs_of_raises)

lemma memory_text_of_total: "\<exists>t. memory_text_of repr rs = Inr t"
  by (auto simp: memory_text_of_def split: sum.splits dest: extract_contents_raises)

lemma no_memory_nonempty: "no_memory \<noteq> []"
  by (simp add: no_memory_def)

text \<open>
  On records of the recognised shape the extraction returns their contents joined by line
  breaks; that text is empty only for no record and for one record with empty content.
\<close>

lemma has_nested_content_record: "has_nested_content (content_record c) = Inr True"
  by (simp add: content_record_def has_nested_content_def)

lemma nested_content_record: "nested_content (content_record c) = Inr (PStr c)"
  by (simp add: content_record_def nested_content_def)

lemma collect_contents_records:
  "collect_contents (map content_record contents) = Inr (map PStr contents)"
  by (induction contents) (simp_all add: has_nested_content_record nested_content_record)

lemma strs_of_strs: "strs_of (map PStr contents) = Inr contents"
  by (induction contents) simp_all

lemma memory_text_of_records:
  "memory_text_of repr (map content_record contents) = Inr (join newline contents)"
proof (cases "contents = []")
  case True
  then show ?thesis
    by (simp add: memory_text_of_def)
next
  case False
  have "extract_contents (map content_record contents) = Inr (join newline contents)"
    unfolding extract_contents_def py_join_def
    by (simp only: collect_contents_records strs_of_strs sum.case)
  moreover have "map content_record contents \<noteq> []"
    using False by simp
  ultimately show ?thesis
    unfolding memory_text_of_def by simp
qed

lemma join_empty:
  "sep \<noteq> [] \<Longrightarrow> join sep contents = [] \<longleftrightarrow> contents = [] \<or> contents = [[]]"
  by (induction sep contents rule: join.induct) simp_all

section \<open>A batch of bare strings\<close>

text \<open>
  Claim C1. The claim says that a batch whose items do not have the nested shape is
  converted item by item to text, so that the batch holding the single bare string
  "User loves jazz" is retrieved as "User loves jazz". In the code the filter of the
  comprehension drops an item that is not a dict without raising, the \<^verbatim>\<open>except\<close> branch
  is not entered, the text stays empty and the node returns the "no related memory"
  sentence, whatever the query, the world and the other collaborators are.
\<close>

theorem bare_string_batch_yields_sentinel:
  "memory_text_of repr [PStr ''User loves jazz''] = Inr [] \<and>
   retrieve_memory_node (env\<lparr>search_tool := \<lambda>query. Inr [PStr ''User loves jazz'']\<rparr>)
       [''input'' \<mapsto> user_input] w =
     (Inr [''input'' \<mapsto> user_input,
           ''retrieved_memory'' \<mapsto> no_memory,
           ''llm1_prompt_instructions'' \<mapsto> []],
      w\<lparr>calls := calls w @ [SearchInvoke user_input],
        debug_search_results := Some [PStr ''User loves jazz'']\<rparr>) \<and>
   no_memory \<noteq> ''User loves jazz''"
proof -
  have empty_text: "memory_text_of repr [PStr ''User loves jazz''] = Inr []" for repr
    by (simp add: memory_text_of_def extract_contents_def has_nested_content_def py_join_def)
  have "no_memory \<noteq> ''User loves jazz''"
    by (simp add: no_memory_def)
  then show ?thesis
    by (simp add: empty_text retrieve_memory_node_def state_get_def)
qed

section \<open>The retrieval stage always returns a non-empty memory text\<close>

text \<open>
  The claim C2 as stated fails on the code for "all-empty records": two records of the
  recognised shape with empty contents are joined to a single line break, which is not
  empty, so the node returns the line break and not the "no related memory" sentence.
\<close>

theorem all_empty_records_counterexample:
  "search_tool env_empty_records ''hello'' =
     Inr [PDict [(''value'', PDict [(''content'', PStr [])])],
          PDict [(''value'', PDict [(''content'', PStr [])])]] \<and>
   retrieve_memory_node env_empty_records [''input'' \<mapsto> ''hello''] fresh_world =
     (Inr [''input'' \<mapsto> ''hello'', ''retrieved_memory'' \<mapsto> newline,
           ''llm1_prompt_instructions'' \<mapsto> []],
      fresh_world
        \<lparr>calls := [SearchInvoke ''hello''],
         debug_search_results :=
           Some [PDict [(''value'', PDict [(''content'', PStr [])])],
                 PDict [(''value'', PDict [(''content'', PStr [])])]]\<rparr>) \<and>
   newline \<noteq> no_memory"
proof -
  have extracted: "memory_text_of repr
      [PDict [(''value'', PDict [(''content'', PStr [])])],
       PDict [(''value'', PDict [(''content'', PStr [])])]] = Inr newline" for repr
    by (simp add: memory_text_of_def extract_contents_def has_nested_content_def
        nested_content_def py_join_def)
  have differ: "newline \<noteq> no_memory"
    by (simp add: newline_def no_memory_def)
  have nonempty: "newline \<noteq> []"
    by (simp add: newline_def)
  show ?thesis
    using differ nonempty
    by (simp add: retrieve_memory_node_def state_get_def env_empty_records_def env_ok_def
        fresh_world_def extracted)
qed

text \<open>
  Claim C2, amended. Whatever sequence of records the search returns (empty, well-shaped,
  bare strings, malformed or mixed), the retrieval node returns, without raising, an update
  whose \<open>retrieved_memory\<close> is a non-empty text: the extracted text of the records, or the
  fixed "no related memory" sentence whenever that text is empty, as it is for an empty
  result. For records of the recognised shape the extracted text is their contents joined
  by line breaks, which is empty only for no record and for a single record with empty
  content; several records with empty contents yield the line breaks between them.
\<close>

theorem retrieve_returns_nonempty_memory:
  assumes "state ''input'' = Some user_input"
      and "search_tool env user_input = Inr search_results"
  shows "\<exists>memory_text memory.
           memory_text_of (py_repr env) search_results = Inr memory_text \<and>
           retrieve_memory_node env state w =
             (Inr [''input'' \<mapsto> user_input,
                   ''retrieved_memory'' \<mapsto> memory,
                   ''llm1_prompt_instructions'' \<mapsto> []],
              w\<lparr>calls := calls w @ [SearchInvoke user_input],
                debug_search_results := Some search_results\<rparr>) \<and>
           memory \<noteq> [] \<and>
           memory = (if memory_text = [] then no_memory else memory_text) \<and>
           (search_results = [] \<longrightarrow> memory = no_memory) \<and>
           (\<forall>contents. search_results = map content_record contents \<longrightarrow>
              memory_text = join newline contents \<and>
              (memory_text = [] \<longleftrightarrow> contents = [] \<or> contents = [[]]))"
proof -
  obtain memory_text where mt: "memory_text_of (py_repr env) search_results = Inr memory_text"
    using memory_text_of_total by blast
  have empty: "search_results = [] \<Longrightarrow> memory_text = []"
    using mt by (simp add: memory_text_of_def)
  have records: "memory_text = join newline contents"
    if "search_results = map content_record contents" for contents
    using mt that by (simp add: memory_text_of_records)
  have sep: "newline \<noteq> []"
    by (simp add: newline_def)
  have shaped: "\<forall>contents. search_results = map content_record contents \<longrightarrow>
              memory_text = join newline contents \<and>
              (memory_text = [] \<longleftrightarrow> contents = [] \<or> contents = [[]])"
  proof (intro allI impI)
    fix contents
    assume "search_results = map content_record contents"
    then have "memory_text = join newline contents"
      by (rule records)
    then show "memory_text = join newline contents \<and>
              (memory_text = [] \<longleftrightarrow> contents = [] \<or> contents = [[]])"
      using join_empty [OF sep, of contents] by simp
  qed
  have node: "retrieve_memory_node env state w =
             (Inr [''input'' \<mapsto> user_input,
                   ''retrieved_memory'' \<mapsto> (if memory_text = [] then no_memory else memory_text),
                   ''llm1_prompt_instructions'' \<mapsto> []],
              w\<lparr>calls := calls w @ [SearchInvoke user_input],
                debug_search_results := Some search_results\<rparr>)"
    using assms mt by (auto simp: retrieve_memory_node_def state_get_def)
  have nonempty: "(if memory_text = [] then no_memory else memory_text) \<noteq> []"
    using no_memory_nonempty by simp
  have none: "search_results = [] \<longrightarrow>
      (if memory_text = [] then no_memory else memory_text) = no_memory"
    using empty by simp
  show ?thesis
    by (intro exI [of _ memory_text]
          exI [of _ "if memory_text = [] then no_memory else memory_text"]
          conjI mt node nonempty refl none shaped)
qed

text \<open>
  A mixed batch: the first record has an integer under \<open>value\<close>, so the membership test
  raises \<^verbatim>\<open>TypeError\<close> and the whole batch is stringified.
\<close>

theorem retrieve_returns_nonempty_memory_witness:
  "search_tool (env_ok\<lparr>search_tool := \<lambda>query. Inr [PDict [(''value'', PInt 5)], PStr ''User loves jazz'']\<rparr>)
      ''hello'' = Inr [PDict [(''value'', PInt 5)], PStr ''User loves jazz''] \<and>
   (\<exists>memory_text memory.
      memory_text_of (py_repr env_ok) [PDict [(''value'', PInt 5)], PStr ''User loves jazz''] = Inr memory_text \<and>
      retrieve_memory_node
          (env_ok\<lparr>search_tool := \<lambda>query. Inr [PDict [(''value'', PInt 5)], PStr ''User loves jazz'']\<rparr>)
          [''input'' \<mapsto> ''hello''] fresh_world =
        (Inr [''input'' \<mapsto> ''hello'',
              ''retrieved_memory'' \<mapsto> memory,
              ''llm1_prompt_instructions'' \<mapsto> []],
         fresh_world\<lparr>calls := calls fresh_world @ [SearchInvoke ''hello''],
           debug_search_results := Some [PDict [(''value'', PInt 5)], PStr ''User loves jazz'']\<rparr>) \<and>
      memory \<noteq> [] \<and>
      memory = ''?'' @ newline @ ''User loves jazz'')"
proof -
  let ?rs = "[PDict [(''value'', PInt 5)], PStr ''User loves jazz'']"
  let ?env = "env_ok\<lparr>search_tool := \<lambda>query. Inr ?rs\<rparr>"
  have input: "[''input'' \<mapsto> ''hello''] ''input'' = Some ''hello''"
    by simp
  have search: "search_tool ?env ''hello'' = Inr ?rs"
    by simp
  have mt: "memory_text_of (py_repr env_ok) ?rs = Inr (''?'' @ newline @ ''User loves jazz'')"
    by (simp add: memory_text_of_def extract_contents_def has_nested_content_def stringify_all_def
        env_ok_def)
  have repr: "py_repr ?env = py_repr env_ok"
    by simp
  obtain memory_text memory where
      m: "memory_text_of (py_repr ?env) ?rs = Inr memory_text"
         "retrieve_memory_node ?env [''input'' \<mapsto> ''hello''] fresh_world =
            (Inr [''input'' \<mapsto> ''hello'', ''retrieved_memory'' \<mapsto> memory,
                  ''llm1_prompt_instructions'' \<mapsto> []],
             fresh_world\<lparr>calls := calls fresh_world @ [SearchInvoke ''hello''],
               debug_search_results := Some ?rs\<rparr>)"
         "memory \<noteq> []"
         "memory = (if memory_text = [] then no_memory else memory_text)"
    using retrieve_returns_nonempty_memory
            [where state = "[''input'' \<mapsto> ''hello'']" and user_input = "''hello''"
               and env = ?env and search_results = ?rs and w = fresh_world, OF input search]
    by (elim exE conjE) (rule that; assumption)
  have text_eq: "memory_text = ''?'' @ newline @ ''User loves jazz''"
    using m(1) mt repr by simp
  have "memory = ''?'' @ newline @ ''User loves jazz''"
    using m(4) text_eq by (simp add: newline_def)
  with m(2,3) mt search show ?thesis
    by (intro conjI exI [of _ "''?'' @ newline @ ''User loves jazz''"] exI [of _ memory])
       simp_all
qed

section \<open>The graph runs its three nodes once each\<close>

lemma run_graph_three_nodes:
  "run_graph (Suc (Suc (Suc (Suc fuel)))) env retrieve_memory s w =
     (case retrieve_memory_node env s (w\<lparr>visited := visited w @ [(retrieve_memory, s)]\<rparr>) of
        (Inl e, w1) \<Rightarrow> (Inl e, w1)
      | (Inr u1, w1) \<Rightarrow>
          (case prompt_guidance_node env (s ++ u1)
                  (w1\<lparr>visited := visited w1 @ [(prompt_guidance, s ++ u1)]\<rparr>) of
             (Inl e, w2) \<Rightarrow> (Inl e, w2)
           | (Inr u2, w2) \<Rightarrow>
               (case chat_by_llm1_node env (s ++ u1 ++ u2)
                       (w2\<lparr>visited := visited w2 @ [(chat_by_llm1, s ++ u1 ++ u2)]\<rparr>) of
                  (Inl e, w3) \<Rightarrow> (Inl e, w3)
                | (Inr u3, w3) \<Rightarrow> (Inr (s ++ u1 ++ u2 ++ u3), w3))))"
  by (simp add: edges_def split: prod.splits sum.splits)

lemma graph_invoke_unfold:
  "graph_invoke env s w =
     (case retrieve_memory_node env s (w\<lparr>visited := visited w @ [(retrieve_memory, s)]\<rparr>) of
        (Inl e, w1) \<Rightarrow> (Inl e, w1)
      | (Inr u1, w1) \<Rightarrow>
          (case prompt_guidance_node env (s ++ u1)
                  (w1\<lparr>visited := visited w1 @ [(prompt_guidance, s ++ u1)]\<rparr>) of
             (Inl e, w2) \<Rightarrow> (Inl e, w2)
           | (Inr u2, w2) \<Rightarrow>
               (case chat_by_llm1_node env (s ++ u1 ++ u2)
                       (w2\<lparr>visited := visited w2 @ [(chat_by_llm1, s ++ u1 ++ u2)]\<rparr>) of
                  (Inl e, w3) \<Rightarrow> (Inl e, w3)
                | (Inr u3, w3) \<Rightarrow> (Inr (s ++ u1 ++ u2 ++ u3), w3))))"
proof -
  have fuel: "recursion_limit = Suc (Suc (Suc (Suc 21)))"
    by (simp add: recursion_limit_def)
  show ?thesis
    unfolding graph_invoke_def entry_point_def fuel
    by (rule run_graph_three_nodes)
qed

section \<open>What each node does, by the answers of the collaborators\<close>

text \<open>
  The nodes leave the page, the conversation and the list of visited nodes alone; only the
  generation node adds to the store, and only when it returns.
\<close>

lemma retrieve_memory_node_frame:
  assumes "retrieve_memory_node env state w = (r, w')"
  shows "visited w' = visited w \<and> messages w' = messages w \<and> screen w' = screen w \<and>
         stored w' = stored w"
  using assms
  by (auto simp: retrieve_memory_node_def Let_def split: sum.splits)

lemma prompt_guidance_node_frame:
  assumes "prompt_guidance_node env state w = (r, w')"
  shows "visited w' = visited w \<and> messages w' = messages w \<and> screen w' = screen w \<and>
         stored w' = stored w \<and> debug_search_results w' = debug_search_results w"
  using assms
  by (auto simp: prompt_guidance_node_def Let_def split: sum.splits)

lemma chat_by_llm1_node_frame:
  assumes "chat_by_llm1_node env state w = (r, w')"
  shows "visited w' = visited w \<and> messages w' = messages w \<and> screen w' = screen w \<and>
         debug_search_results w' = debug_search_results w"
  using assms
  by (auto simp: chat_by_llm1_node_def Let_def split: sum.splits)

lemma retrieve_memory_node_result:
  "fst (retrieve_memory_node env state w) = fst (retrieve_memory_node env state v)"
  by (auto simp: retrieve_memory_node_def Let_def split: sum.splits)

text \<open>The outcome of each node on a state that holds the fields it reads.\<close>

lemma memory_text_of_empty: "memory_text_of repr [] = Inr []"
  by (simp add: memory_text_of_def)

lemma temperatures_differ: "llm1_temperature \<noteq> llm2_temperature"
  by (simp add: llm1_temperature_def llm2_temperature_def)

lemma retrieve_memory_node_returns:
  assumes "state ''input'' = Some user_input"
      and "search_tool env user_input = Inr search_results"
      and "memory_text_of (py_repr env) search_results = Inr memory_text"
  shows "retrieve_memory_node env state w =
           (Inr [''input'' \<mapsto> user_input,
                 ''retrieved_memory'' \<mapsto> (if memory_text \<noteq> [] then memory_text else no_memory),
                 ''llm1_prompt_instructions'' \<mapsto> []],
            w\<lparr>calls := calls w @ [SearchInvoke user_input],
              debug_search_results := Some search_results\<rparr>)"
  using assms by (simp add: retrieve_memory_node_def state_get_def)

lemma retrieve_memory_node_search_raises:
  assumes "state ''input'' = Some user_input" and "search_tool env user_input = Inl e"
  shows "retrieve_memory_node env state w = (Inl e, w\<lparr>calls := calls w @ [SearchInvoke user_input]\<rparr>)"
  using assms by (simp add: retrieve_memory_node_def state_get_def)

lemma prompt_guidance_node_returns:
  assumes "state ''input'' = Some user_input"
      and "state ''retrieved_memory'' = Some memory"
  shows "prompt_guidance_node env state w =
           (case chat_openai env model_name llm2_temperature (guidance_prompt user_input memory) of
              Inl e \<Rightarrow> Inl e
            | Inr content \<Rightarrow>
                Inr [''input'' \<mapsto> user_input, ''retrieved_memory'' \<mapsto> memory,
                     ''llm1_prompt_instructions'' \<mapsto> content],
            w\<lparr>calls := calls w @
                 [ChatInvoke model_name llm2_temperature (guidance_prompt user_input memory)]\<rparr>)"
  using assms by (simp add: prompt_guidance_node_def state_get_def Let_def split: sum.splits)

lemma chat_by_llm1_node_provider_raises:
  assumes "state ''input'' = Some user_input"
      and "state ''retrieved_memory'' = Some memory"
      and "state ''llm1_prompt_instructions'' = Some instructions"
      and "chat_openai env model_name llm1_temperature (chat_prompt instructions memory user_input) = Inl e"
  shows "chat_by_llm1_node env state w =
           (Inl e, w\<lparr>calls := calls w @
              [ChatInvoke model_name llm1_temperature (chat_prompt instructions memory user_input)]\<rparr>)"
  using assms by (simp add: chat_by_llm1_node_def state_get_def Let_def)

lemma chat_by_llm1_node_create_raises:
  assumes "state ''input'' = Some user_input"
      and "state ''retrieved_memory'' = Some memory"
      and "state ''llm1_prompt_instructions'' = Some instructions"
      and "chat_openai env model_name llm1_temperature (chat_prompt instructions memory user_input) = Inr response"
      and "manage_tool env (stored_turn user_input response) ''create'' = Inl e"
  shows "chat_by_llm1_node env state w =
           (Inl e, w\<lparr>calls := calls w @
              [ChatInvoke model_name llm1_temperature (chat_prompt instructions memory user_input),
               ManageInvoke (stored_turn user_input response) ''create'']\<rparr>)"
  using assms by (simp add: chat_by_llm1_node_def state_get_def Let_def)

lemma chat_by_llm1_node_returns:
  assumes "state ''input'' = Some user_input"
      and "state ''retrieved_memory'' = Some memory"
      and "state ''llm1_prompt_instructions'' = Some instructions"
      and "chat_openai env model_name llm1_temperature (chat_prompt instructions memory user_input) = Inr response"
      and "manage_tool env (stored_turn user_input response) ''create'' = Inr done"
  shows "chat_by_llm1_node env state w =
           (Inr [''response'' \<mapsto> response, ''llm1_prompt_instructions'' \<mapsto> instructions],
            w\<lparr>calls := calls w @
                 [ChatInvoke model_name llm1_temperature (chat_prompt instructions memory user_input),
                  ManageInvoke (stored_turn user_input response) ''create''],
              stored := stored w @ [stored_turn user_input response]\<rparr>)"
  using assms by (simp add: chat_by_llm1_node_def state_get_def Let_def)

section \<open>What a run does, by the answers of the collaborators\<close>

text \<open>
  A run started as the handler starts it, on the state that holds only \<open>input\<close>: the five
  ways it can go, by the first collaborator that raises, if any.
\<close>

lemma run_search_raises:
  assumes "search_tool env user_input = Inl e"
  shows "graph_invoke env [''input'' \<mapsto> user_input] w =
           (Inl e, w\<lparr>visited := visited w @ [(retrieve_memory, [''input'' \<mapsto> user_input])],
                    calls := calls w @ [SearchInvoke user_input]\<rparr>)"
  using assms
  by (simp add: graph_invoke_unfold retrieve_memory_node_search_raises)

lemma run_planning_raises:
  assumes "search_tool env user_input = Inr search_results"
      and "memory_text_of (py_repr env) search_results = Inr memory_text"
      and "memory = (if memory_text \<noteq> [] then memory_text else no_memory)"
      and "chat_openai env model_name llm2_temperature (guidance_prompt user_input memory) = Inl e"
  shows "\<exists>w'. graph_invoke env [''input'' \<mapsto> user_input] w = (Inl e, w') \<and>
              calls w' = calls w @
                [SearchInvoke user_input,
                 ChatInvoke model_name llm2_temperature (guidance_prompt user_input memory)] \<and>
              stored w' = stored w \<and> messages w' = messages w \<and> screen w' = screen w"
  using assms
  by (simp add: graph_invoke_unfold retrieve_memory_node_returns
      prompt_guidance_node_returns [where user_input = user_input and memory = memory])

lemma run_generation_raises:
  assumes "search_tool env user_input = Inr search_results"
      and "memory_text_of (py_repr env) search_results = Inr memory_text"
      and "memory = (if memory_text \<noteq> [] then memory_text else no_memory)"
      and "chat_openai env model_name llm2_temperature (guidance_prompt user_input memory) = Inr instructions"
      and "chat_openai env model_name llm1_temperature (chat_prompt instructions memory user_input) = Inl e"
  shows "\<exists>w'. graph_invoke env [''input'' \<mapsto> user_input] w = (Inl e, w') \<and>
              calls w' = calls w @
                [SearchInvoke user_input,
                 ChatInvoke model_name llm2_temperature (guidance_prompt user_input memory),
                 ChatInvoke model_name llm1_temperature (chat_prompt instructions memory user_input)] \<and>
              stored w' = stored w \<and> messages w' = messages w \<and> screen w' = screen w"
  using assms
  by (simp add: graph_invoke_unfold retrieve_memory_node_returns
      prompt_guidance_node_returns [where user_input = user_input and memory = memory]
      chat_by_llm1_node_provider_raises
        [where user_input = user_input and memory = memory and instructions = instructions])

lemma run_create_raises:
  assumes "search_tool env user_input = Inr search_results"
      and "memory_text_of (py_repr env) search_results = Inr memory_text"
      and "memory = (if memory_text \<noteq> [] then memory_text else no_memory)"
      and "chat_openai env model_name llm2_temperature (guidance_prompt user_input memory) = Inr instructions"
      and "chat_openai env model_name llm1_temperature (chat_prompt instructions memory user_input) = Inr response"
      and "manage_tool env (stored_turn user_input response) ''create'' = Inl e"
  shows "\<exists>w'. graph_invoke env [''input'' \<mapsto> user_input] w = (Inl e, w') \<and>
              calls w' = calls w @
                [SearchInvoke user_input,
                 ChatInvoke model_name llm2_temperature (guidance_prompt user_input memory),
                 ChatInvoke model_name llm1_temperature (chat_prompt instructions memory user_input),
                 ManageInvoke (stored_turn user_input response) ''create''] \<and>
              stored w' = stored w \<and> messages w' = messages w \<and> screen w' = screen w"
  using assms
  by (simp add: graph_invoke_unfold retrieve_memory_node_returns
      prompt_guidance_node_returns [where user_input = user_input and memory = memory]
      chat_by_llm1_node_create_raises
        [where user_input = user_input and memory = memory and instructions = instructions
           and response = response])

lemma run_returns:
  assumes "search_tool env user_input = Inr search_results"
      and "memory_text_of (py_repr env) search_results = Inr memory_text"
      and "memory = (if memory_text \<noteq> [] then memory_text else no_memory)"
      and "chat_openai env model_name llm2_temperature (guidance_prompt user_input memory) = Inr instructions"
      and "chat_openai env model_name llm1_temperature (chat_prompt instructions memory user_input) = Inr response"
      and "manage_tool env (stored_turn user_input response) ''create'' = Inr done"
  shows "\<exists>result w'. graph_invoke env [''input'' \<mapsto> user_input] w = (Inr result, w') \<and>
              result ''input'' = Some user_input \<and>
              result ''retrieved_memory'' = Some memory \<and>
              result ''llm1_prompt_instructions'' = Some instructions \<and>
              result ''response'' = Some response \<and>
              calls w' = calls w @
                [SearchInvoke user_input,
                 ChatInvoke model_name llm2_temperature (guidance_prompt user_input memory),
                 ChatInvoke model_name llm1_temperature (chat_prompt instructions memory user_input),
                 ManageInvoke (stored_turn user_input response) ''create''] \<and>
              stored w' = stored w @ [stored_turn user_input response] \<and>
              messages w' = messages w \<and> screen w' = screen w"
  using assms
  by (simp add: graph_invoke_unfold retrieve_memory_node_returns
      prompt_guidance_node_returns [where user_input = user_input and memory = memory]
      chat_by_llm1_node_returns
        [where user_input = user_input and memory = memory and instructions = instructions
           and response = response])

lemma graph_invoke_frame:
  assumes "graph_invoke env state w = (r, w')"
  shows "messages w' = messages w \<and> screen w' = screen w"
proof -
  let ?w0 = "w\<lparr>visited := visited w @ [(retrieve_memory, state)]\<rparr>"
  obtain r1 w1 where n1: "retrieve_memory_node env state ?w0 = (r1, w1)"
    by (cases "retrieve_memory_node env state ?w0")
  have f1: "messages w1 = messages w \<and> screen w1 = screen w"
    using retrieve_memory_node_frame [OF n1] by simp
  show ?thesis
  proof (cases r1)
    case (Inl e)
    then show ?thesis
      using assms n1 f1 by (simp add: graph_invoke_unfold)
  next
    case (Inr u1)
    let ?w1 = "w1\<lparr>visited := visited w1 @ [(prompt_guidance, state ++ u1)]\<rparr>"
    obtain r2 w2 where n2: "prompt_guidance_node env (state ++ u1) ?w1 = (r2, w2)"
      by (cases "prompt_guidance_node env (state ++ u1) ?w1")
    have f2: "messages w2 = messages w \<and> screen w2 = screen w"
      using prompt_guidance_node_frame [OF n2] f1 by simp
    show ?thesis
    proof (cases r2)
      case (Inl e)
      then show ?thesis
        using assms n1 n2 f2 \<open>r1 = Inr u1\<close> by (simp add: graph_invoke_unfold)
    next
      case (Inr u2)
      let ?w2 = "w2\<lparr>visited := visited w2 @ [(chat_by_llm1, state ++ u1 ++ u2)]\<rparr>"
      obtain r3 w3 where n3: "chat_by_llm1_node env (state ++ u1 ++ u2) ?w2 = (r3, w3)"
        by (cases "chat_by_llm1_node env (state ++ u1 ++ u2) ?w2")
      have f3: "messages w3 = messages w \<and> screen w3 = screen w"
        using chat_by_llm1_node_frame [OF n3] f2 by simp
      have "w' = w3"
        using assms n1 n2 n3 \<open>r1 = Inr u1\<close> Inr
        by (cases r3) (simp_all add: graph_invoke_unfold)
      then show ?thesis
        using f3 by simp
    qed
  qed
qed

text \<open>The handler when \<^verbatim>\<open>graph.invoke\<close> raises: the fallback reply, and no binding of \<^verbatim>\<open>result\<close>.\<close>

lemma invoke_for_reply_raises:
  assumes "graph_invoke env [''input'' \<mapsto> user_input] w = (Inl e, w')"
  shows "invoke_for_reply env user_input w =
           (fallback_reply, None, w'\<lparr>screen := screen w' @ [ErrorBox e]\<rparr>)"
  using assms by (simp add: invoke_for_reply_def)

lemma chat_turn_unbound_result:
  assumes "invoke_for_reply env user_input
             (w\<lparr>messages := messages w @ [HumanMessage user_input],
                screen := screen w @ [ChatUser user_input]\<rparr>) = (reply, None, w')"
  shows "chat_turn env user_input w =
           (Some (NameError ''result''),
            w'\<lparr>messages := messages w' @ [AIMessage reply],
               screen := screen w' @ [ChatBot reply, ThoughtExpander, InstructionsHeading]\<rparr>)"
  using assms by (simp add: chat_turn_def Let_def)

section \<open>A failing provider\<close>

text \<open>
  Claim C3. When the completion provider raises during planning or during generation, the
  \<^verbatim>\<open>try\<close> statement of the handler catches the exception: the reply it yields is the
  fixed apology, the exception only appears in an error box, the apology is what the
  conversation and the page receive, and the store is neither asked to create anything nor
  changed. (That the script then stops on line 253 is claim C10.)
\<close>

theorem provider_failure_yields_fallback:
  assumes "search_tool env user_input = Inr search_results"
      and "memory_text_of (py_repr env) search_results = Inr memory_text"
      and "memory = (if memory_text \<noteq> [] then memory_text else no_memory)"
      and "chat_openai env model_name llm2_temperature (guidance_prompt user_input memory) = Inl e \<or>
           (\<exists>instructions.
              chat_openai env model_name llm2_temperature (guidance_prompt user_input memory) =
                Inr instructions \<and>
              chat_openai env model_name llm1_temperature
                (chat_prompt instructions memory user_input) = Inl e)"
  shows "(\<exists>w' new.
            invoke_for_reply env user_input w = (fallback_reply, None, w') \<and>
            screen w' = screen w @ [ErrorBox e] \<and>
            stored w' = stored w \<and>
            calls w' = calls w @ new \<and>
            (\<forall>content action. ManageInvoke content action \<notin> set new)) \<and>
         messages (snd (chat_turn env user_input w)) =
           messages w @ [HumanMessage user_input, AIMessage fallback_reply] \<and>
         stored (snd (chat_turn env user_input w)) = stored w"
proof -
  have run: "\<exists>w' new. graph_invoke env [''input'' \<mapsto> user_input] v = (Inl e, w') \<and>
                calls w' = calls v @ new \<and> (\<forall>content action. ManageInvoke content action \<notin> set new) \<and>
                stored w' = stored v \<and> messages w' = messages v \<and> screen w' = screen v" for v
    using assms(4)
  proof
    assume "chat_openai env model_name llm2_temperature (guidance_prompt user_input memory) = Inl e"
    from run_planning_raises [OF assms(1-3) this, of v] show ?thesis
      by auto
  next
    assume "\<exists>instructions.
              chat_openai env model_name llm2_temperature (guidance_prompt user_input memory) =
                Inr instructions \<and>
              chat_openai env model_name llm1_temperature
                (chat_prompt instructions memory user_input) = Inl e"
    then obtain instructions where
      "chat_openai env model_name llm2_temperature (guidance_prompt user_input memory) = Inr instructions"
      "chat_openai env model_name llm1_temperature (chat_prompt instructions memory user_input) = Inl e"
      by blast
    from run_generation_raises [OF assms(1-3) this, of v] show ?thesis
      by auto
  qed
  have reply: "\<exists>w' new.
            invoke_for_reply env user_input v = (fallback_reply, None, w') \<and>
            screen w' = screen v @ [ErrorBox e] \<and> messages w' = messages v \<and>
            stored w' = stored v \<and>
            calls w' = calls v @ new \<and>
            (\<forall>content action. ManageInvoke content action \<notin> set new)" for v
  proof -
    obtain w' new where r: "graph_invoke env [''input'' \<mapsto> user_input] v = (Inl e, w')"
        "calls w' = calls v @ new" "\<forall>content action. ManageInvoke content action \<notin> set new"
        "stored w' = stored v" "messages w' = messages v" "screen w' = screen v"
      using run [of v] by blast
    show ?thesis
      using invoke_for_reply_raises [OF r(1)] r(2-6) by auto
  qed
  let ?w1 = "w\<lparr>messages := messages w @ [HumanMessage user_input],
                screen := screen w @ [ChatUser user_input]\<rparr>"
  obtain w2 where w2: "invoke_for_reply env user_input ?w1 = (fallback_reply, None, w2)"
      "messages w2 = messages ?w1" "stored w2 = stored ?w1"
    using reply [of ?w1] by blast
  have turn: "messages (snd (chat_turn env user_input w)) =
           messages w @ [HumanMessage user_input, AIMessage fallback_reply] \<and>
         stored (snd (chat_turn env user_input w)) = stored w"
    using chat_turn_unbound_result [OF w2(1)] w2(2,3) by simp
  from reply [of w] turn show ?thesis
    by blast
qed

text \<open>A provider that raises on the planning call, and one that raises on the generation call.\<close>

theorem provider_failure_yields_fallback_witness:
  "chat_openai env_planning_down model_name llm2_temperature (guidance_prompt ''hello'' no_memory) =
     Inl (ExternalError ''ProviderFailure'') \<and>
   fst (invoke_for_reply env_planning_down ''hello'' fresh_world) = fallback_reply \<and>
   messages (snd (chat_turn env_planning_down ''hello'' fresh_world)) =
     [HumanMessage ''hello'', AIMessage fallback_reply] \<and>
   stored (snd (chat_turn env_planning_down ''hello'' fresh_world)) = [] \<and>
   chat_openai env_generation_down model_name llm2_temperature (guidance_prompt ''hello'' no_memory) =
     Inr ''plan'' \<and>
   chat_openai env_generation_down model_name llm1_temperature (chat_prompt ''plan'' no_memory ''hello'') =
     Inl (ExternalError ''ProviderFailure'') \<and>
   fst (invoke_for_reply env_generation_down ''hello'' fresh_world) = fallback_reply \<and>
   messages (snd (chat_turn env_generation_down ''hello'' fresh_world)) =
     [HumanMessage ''hello'', AIMessage fallback_reply] \<and>
   stored (snd (chat_turn env_generation_down ''hello'' fresh_world)) = []"
proof -
  have memory: "no_memory = (if ([]::string) \<noteq> [] then [] else no_memory)"
    by simp
  have search_p: "search_tool env_planning_down ''hello'' = Inr []"
    by (simp add: env_planning_down_def env_ok_def)
  have planning: "chat_openai env_planning_down model_name llm2_temperature
      (guidance_prompt ''hello'' no_memory) = Inl (ExternalError ''ProviderFailure'')"
    by (simp add: env_planning_down_def)
  have search_g: "search_tool env_generation_down ''hello'' = Inr []"
    by (simp add: env_generation_down_def env_ok_def)
  have plan_g: "chat_openai env_generation_down model_name llm2_temperature
      (guidance_prompt ''hello'' no_memory) = Inr ''plan''"
    by (simp add: env_generation_down_def)
  have generation: "chat_openai env_generation_down model_name llm1_temperature
      (chat_prompt ''plan'' no_memory ''hello'') = Inl (ExternalError ''ProviderFailure'')"
    by (simp add: env_generation_down_def temperatures_differ)
  have p: "fst (invoke_for_reply env_planning_down ''hello'' fresh_world) = fallback_reply \<and>
      messages (snd (chat_turn env_planning_down ''hello'' fresh_world)) =
        [HumanMessage ''hello'', AIMessage fallback_reply] \<and>
      stored (snd (chat_turn env_planning_down ''hello'' fresh_world)) = []"
    using provider_failure_yields_fallback
            [OF search_p memory_text_of_empty memory disjI1, OF planning, of fresh_world]
    by (auto simp: fresh_world_def)
  have g: "fst (invoke_for_reply env_generation_down ''hello'' fresh_world) = fallback_reply \<and>
      messages (snd (chat_turn env_generation_down ''hello'' fresh_world)) =
        [HumanMessage ''hello'', AIMessage fallback_reply] \<and>
      stored (snd (chat_turn env_generation_down ''hello'' fresh_world)) = []"
    using provider_failure_yields_fallback
            [OF search_g memory_text_of_empty memory disjI2, of "ExternalError ''ProviderFailure''"
               fresh_world]
          plan_g generation
    by (auto simp: fresh_world_def)
  from planning plan_g generation p g show ?thesis
    by simp
qed

section \<open>The stored turn\<close>

text \<open>
  Claim C4. Whenever the generation node returns, the provider has answered and the node has
  invoked the store's create exactly once, after the provider call; the stored content is the
  fixed template around the user's input and the generated reply, so both occur in it
  verbatim, and it is the one content added to the store.
\<close>

theorem generation_stores_one_turn:
  assumes "chat_by_llm1_node env state w = (Inr update, w')"
  shows "\<exists>user_input response prompt.
           state ''input'' = Some user_input \<and>
           chat_openai env model_name llm1_temperature prompt = Inr response \<and>
           update ''response'' = Some response \<and>
           calls w' = calls w @ [ChatInvoke model_name llm1_temperature prompt,
                                 ManageInvoke (stored_turn user_input response) ''create''] \<and>
           stored w' = stored w @ [stored_turn user_input response] \<and>
           stored_turn user_input response =
             turn_user_label @ user_input @ turn_hibiki_label @ response \<and>
           sublist user_input (stored_turn user_input response) \<and>
           sublist response (stored_turn user_input response)"
proof -
  have occurs: "sublist u (stored_turn u r) \<and> sublist r (stored_turn u r)" for u r
    unfolding stored_turn_def sublist_def
    by (metis append.assoc append_Nil2)
  show ?thesis
    using assms occurs
    by (auto simp: chat_by_llm1_node_def state_get_def Let_def stored_turn_def
        split: option.splits sum.splits)
qed

theorem generation_stores_one_turn_witness:
  "chat_by_llm1_node env_ok
      [''input'' \<mapsto> ''hello'', ''retrieved_memory'' \<mapsto> no_memory,
       ''llm1_prompt_instructions'' \<mapsto> ''plan''] fresh_world =
     (Inr [''response'' \<mapsto> ''reply'', ''llm1_prompt_instructions'' \<mapsto> ''plan''],
      fresh_world
        \<lparr>calls := [ChatInvoke model_name llm1_temperature (chat_prompt ''plan'' no_memory ''hello''),
                   ManageInvoke (stored_turn ''hello'' ''reply'') ''create''],
         stored := [stored_turn ''hello'' ''reply'']\<rparr>) \<and>
   (\<exists>user_input response prompt.
      [''input'' \<mapsto> ''hello'', ''retrieved_memory'' \<mapsto> no_memory,
       ''llm1_prompt_instructions'' \<mapsto> ''plan''] ''input'' = Some user_input \<and>
      chat_openai env_ok model_name llm1_temperature prompt = Inr response \<and>
      [''response'' \<mapsto> ''reply'', ''llm1_prompt_instructions'' \<mapsto> ''plan''] ''response'' = Some response \<and>
      stored (fresh_world
        \<lparr>calls := [ChatInvoke model_name llm1_temperature (chat_prompt ''plan'' no_memory ''hello''),
                   ManageInvoke (stored_turn ''hello'' ''reply'') ''create''],
         stored := [stored_turn ''hello'' ''reply'']\<rparr>) =
        stored fresh_world @ [stored_turn user_input response] \<and>
      sublist user_input (stored_turn user_input response) \<and>
      sublist response (stored_turn user_input response))"
proof -
  have run: "chat_by_llm1_node env_ok
      [''input'' \<mapsto> ''hello'', ''retrieved_memory'' \<mapsto> no_memory,
       ''llm1_prompt_instructions'' \<mapsto> ''plan''] fresh_world =
     (Inr [''response'' \<mapsto> ''reply'', ''llm1_prompt_instructions'' \<mapsto> ''plan''],
      fresh_world
        \<lparr>calls := [ChatInvoke model_name llm1_temperature (chat_prompt ''plan'' no_memory ''hello''),
                   ManageInvoke (stored_turn ''hello'' ''reply'') ''create''],
         stored := [stored_turn ''hello'' ''reply'']\<rparr>)"
    by (simp add: chat_by_llm1_node_def state_get_def env_ok_def fresh_world_def
        llm1_temperature_def llm2_temperature_def Let_def)
  from generation_stores_one_turn [OF run] run show ?thesis
    by (simp only: simp_thms) blast
qed

section \<open>A failing create\<close>

text \<open>
  The claim C5 as stated fails on the code: with a store whose create raises after the
  provider has produced \<open>''reply''\<close>, the reply that reaches the conversation is the
  apology, not the generated text.
\<close>

theorem create_failure_counterexample:
  "chat_openai env_create_down model_name llm1_temperature (chat_prompt ''plan'' no_memory ''hello'') =
     Inr ''reply'' \<and>
   manage_tool env_create_down (stored_turn ''hello'' ''reply'') ''create'' =
     Inl (ExternalError ''StoreUnavailable'') \<and>
   fst (invoke_for_reply env_create_down ''hello'' fresh_world) = fallback_reply \<and>
   messages (snd (chat_turn env_create_down ''hello'' fresh_world)) =
     [HumanMessage ''hello'', AIMessage fallback_reply] \<and>
   fallback_reply \<noteq> ''reply''"
proof -
  let ?w1 = "fresh_world\<lparr>messages := messages fresh_world @ [HumanMessage ''hello''],
                screen := screen fresh_world @ [ChatUser ''hello'']\<rparr>"
  have memory: "no_memory = (if ([]::string) \<noteq> [] then [] else no_memory)"
    by simp
  have search: "search_tool env_create_down ''hello'' = Inr []"
    by (simp add: env_create_down_def env_ok_def)
  have plan: "chat_openai env_create_down model_name llm2_temperature
      (guidance_prompt ''hello'' no_memory) = Inr ''plan''"
    by (simp add: env_create_down_def env_ok_def)
  have gen: "chat_openai env_create_down model_name llm1_temperature
      (chat_prompt ''plan'' no_memory ''hello'') = Inr ''reply''"
    by (simp add: env_create_down_def env_ok_def temperatures_differ)
  have create: "manage_tool env_create_down (stored_turn ''hello'' ''reply'') ''create'' =
      Inl (ExternalError ''StoreUnavailable'')"
    by (simp add: env_create_down_def)
  have run: "\<exists>w'. graph_invoke env_create_down [''input'' \<mapsto> ''hello''] v =
               (Inl (ExternalError ''StoreUnavailable''), w') \<and> messages w' = messages v" for v
    using run_create_raises [OF search memory_text_of_empty memory plan gen create, of v] by blast
  have reply: "fst (invoke_for_reply env_create_down ''hello'' fresh_world) = fallback_reply"
    using run [of fresh_world] by (auto simp: invoke_for_reply_def)
  obtain w' where w': "graph_invoke env_create_down [''input'' \<mapsto> ''hello''] ?w1 =
               (Inl (ExternalError ''StoreUnavailable''), w')" "messages w' = messages ?w1"
    using run [of ?w1] by blast
  have turn: "messages (snd (chat_turn env_create_down ''hello'' fresh_world)) =
     [HumanMessage ''hello'', AIMessage fallback_reply]"
    using chat_turn_unbound_result [OF invoke_for_reply_raises [OF w'(1)]] w'(2)
    by (simp add: fresh_world_def)
  have "fallback_reply \<noteq> ''reply''"
    by (simp add: fallback_reply_def)
  with gen create reply turn show ?thesis
    by simp
qed

text \<open>
  Claim C5, amended. When the store's create raises after a successful generation, the
  exception leaves the generation node and \<^verbatim>\<open>graph.invoke\<close>; the handler catches it,
  shows it in the error box and substitutes the apology, which is what the conversation and
  the page receive in place of the generated reply; nothing is stored.
\<close>

theorem create_failure_discards_reply:
  assumes "search_tool env user_input = Inr search_results"
      and "memory_text_of (py_repr env) search_results = Inr memory_text"
      and "memory = (if memory_text \<noteq> [] then memory_text else no_memory)"
      and "chat_openai env model_name llm2_temperature (guidance_prompt user_input memory) =
             Inr instructions"
      and "chat_openai env model_name llm1_temperature (chat_prompt instructions memory user_input) =
             Inr response"
      and "manage_tool env (stored_turn user_input response) ''create'' = Inl e"
  shows "(\<exists>w'. graph_invoke env [''input'' \<mapsto> user_input] w = (Inl e, w') \<and>
               invoke_for_reply env user_input w =
                 (fallback_reply, None, w'\<lparr>screen := screen w @ [ErrorBox e]\<rparr>) \<and>
               stored w' = stored w) \<and>
         messages (snd (chat_turn env user_input w)) =
           messages w @ [HumanMessage user_input, AIMessage fallback_reply] \<and>
         screen (snd (chat_turn env user_input w)) =
           screen w @ [ChatUser user_input, ErrorBox e, ChatBot fallback_reply,
                       ThoughtExpander, InstructionsHeading] \<and>
         stored (snd (chat_turn env user_input w)) = stored w"
proof -
  let ?w1 = "w\<lparr>messages := messages w @ [HumanMessage user_input],
                screen := screen w @ [ChatUser user_input]\<rparr>"
  have run: "\<exists>w'. graph_invoke env [''input'' \<mapsto> user_input] v = (Inl e, w') \<and>
               stored w' = stored v \<and> messages w' = messages v \<and> screen w' = screen v" for v
    using run_create_raises [OF assms, of v] by blast
  obtain w' where w': "graph_invoke env [''input'' \<mapsto> user_input] w = (Inl e, w')"
      "stored w' = stored w" "screen w' = screen w"
    using run [of w] by blast
  obtain w2 where w2: "graph_invoke env [''input'' \<mapsto> user_input] ?w1 = (Inl e, w2)"
      "stored w2 = stored ?w1" "messages w2 = messages ?w1" "screen w2 = screen ?w1"
    using run [of ?w1] by blast
  have first: "\<exists>w'. graph_invoke env [''input'' \<mapsto> user_input] w = (Inl e, w') \<and>
               invoke_for_reply env user_input w =
                 (fallback_reply, None, w'\<lparr>screen := screen w @ [ErrorBox e]\<rparr>) \<and>
               stored w' = stored w"
    using invoke_for_reply_raises [OF w'(1)] w' by simp
  have turn: "messages (snd (chat_turn env user_input w)) =
           messages w @ [HumanMessage user_input, AIMessage fallback_reply] \<and>
         screen (snd (chat_turn env user_input w)) =
           screen w @ [ChatUser user_input, ErrorBox e, ChatBot fallback_reply,
                       ThoughtExpander, InstructionsHeading] \<and>
         stored (snd (chat_turn env user_input w)) = stored w"
    using chat_turn_unbound_result [OF invoke_for_reply_raises [OF w2(1)]] w2(2-4) by simp
  from first turn show ?thesis
    by blast
qed

theorem create_failure_discards_reply_witness:
  "manage_tool env_create_down (stored_turn ''hello'' ''reply'') ''create'' =
     Inl (ExternalError ''StoreUnavailable'') \<and>
   messages (snd (chat_turn env_create_down ''hello'' fresh_world)) =
     [HumanMessage ''hello'', AIMessage fallback_reply] \<and>
   screen (snd (chat_turn env_create_down ''hello'' fresh_world)) =
     [ChatUser ''hello'', ErrorBox (ExternalError ''StoreUnavailable''), ChatBot fallback_reply,
      ThoughtExpander, InstructionsHeading] \<and>
   stored (snd (chat_turn env_create_down ''hello'' fresh_world)) = []"
proof -
  have memory: "no_memory = (if ([]::string) \<noteq> [] then [] else no_memory)"
    by simp
  have search: "search_tool env_create_down ''hello'' = Inr []"
    by (simp add: env_create_down_def env_ok_def)
  have plan: "chat_openai env_create_down model_name llm2_temperature
      (guidance_prompt ''hello'' no_memory) = Inr ''plan''"
    by (simp add: env_create_down_def env_ok_def)
  have gen: "chat_openai env_create_down model_name llm1_temperature
      (chat_prompt ''plan'' no_memory ''hello'') = Inr ''reply''"
    by (simp add: env_create_down_def env_ok_def temperatures_differ)
  have create: "manage_tool env_create_down (stored_turn ''hello'' ''reply'') ''create'' =
      Inl (ExternalError ''StoreUnavailable'')"
    by (simp add: env_create_down_def)
  show ?thesis
    using create_failure_discards_reply
            [OF search memory_text_of_empty memory plan gen create, of fresh_world]
          create
    by (simp add: fresh_world_def)
qed

section \<open>A failing search\<close>

text \<open>
  The claim C6 as stated fails on the code: with a store whose search raises, the retrieval
  node raises the store's exception and returns no update, so no "no related memory"
  sentence is produced.
\<close>

theorem search_failure_counterexample:
  "search_tool env_search_down ''hello'' = Inl (ExternalError ''StoreUnavailable'') \<and>
   retrieve_memory_node env_search_down [''input'' \<mapsto> ''hello''] fresh_world =
     (Inl (ExternalError ''StoreUnavailable''), fresh_world\<lparr>calls := [SearchInvoke ''hello'']\<rparr>)"
  by (simp add: retrieve_memory_node_def state_get_def env_search_down_def env_ok_def fresh_world_def)

text \<open>
  Claim C6, amended. When the store's search raises, the retrieval node raises the same
  exception (the call is not guarded), the run ends there without visiting another node,
  and the handler substitutes the apology for the reply.
\<close>

theorem search_failure_propagates:
  assumes "search_tool env user_input = Inl e"
  shows "retrieve_memory_node env [''input'' \<mapsto> user_input] w =
           (Inl e, w\<lparr>calls := calls w @ [SearchInvoke user_input]\<rparr>) \<and>
         graph_invoke env [''input'' \<mapsto> user_input] w =
           (Inl e, w\<lparr>visited := visited w @ [(retrieve_memory, [''input'' \<mapsto> user_input])],
                    calls := calls w @ [SearchInvoke user_input]\<rparr>) \<and>
         fst (invoke_for_reply env user_input w) = fallback_reply \<and>
         messages (snd (chat_turn env user_input w)) =
           messages w @ [HumanMessage user_input, AIMessage fallback_reply]"
proof -
  let ?w1 = "w\<lparr>messages := messages w @ [HumanMessage user_input],
                screen := screen w @ [ChatUser user_input]\<rparr>"
  have node: "retrieve_memory_node env [''input'' \<mapsto> user_input] w =
           (Inl e, w\<lparr>calls := calls w @ [SearchInvoke user_input]\<rparr>)"
    using assms by (simp add: retrieve_memory_node_search_raises)
  have reply: "fst (invoke_for_reply env user_input w) = fallback_reply"
    using invoke_for_reply_raises [OF run_search_raises [OF assms]] by simp
  have turn: "messages (snd (chat_turn env user_input w)) =
           messages w @ [HumanMessage user_input, AIMessage fallback_reply]"
    using chat_turn_unbound_result
            [OF invoke_for_reply_raises [OF run_search_raises [OF assms, of ?w1]]]
    by simp
  from node run_search_raises [OF assms, of w] reply turn show ?thesis
    by simp
qed

theorem search_failure_propagates_witness:
  "search_tool env_search_down ''hello'' = Inl (ExternalError ''StoreUnavailable'') \<and>
   graph_invoke env_search_down [''input'' \<mapsto> ''hello''] fresh_world =
     (Inl (ExternalError ''StoreUnavailable''),
      fresh_world\<lparr>visited := [(retrieve_memory, [''input'' \<mapsto> ''hello''])],
                   calls := [SearchInvoke ''hello'']\<rparr>) \<and>
   fst (invoke_for_reply env_search_down ''hello'' fresh_world) = fallback_reply \<and>
   messages (snd (chat_turn env_search_down ''hello'' fresh_world)) =
     [HumanMessage ''hello'', AIMessage fallback_reply]"
proof -
  have search: "search_tool env_search_down ''hello'' = Inl (ExternalError ''StoreUnavailable'')"
    by (simp add: env_search_down_def)
  show ?thesis
    using search_failure_propagates [OF search, of fresh_world] search
    by (simp add: fresh_world_def)
qed

section \<open>The order of the stages\<close>

text \<open>
  The nodes a run visits, in order, and the state the planning node receives.
\<close>

lemma run_visits_in_order:
  assumes "graph_invoke env [''input'' \<mapsto> user_input] w = (outcome, w')"
  shows "\<exists>ran.
           visited w' = visited w @ ran \<and>
           (map fst ran = [retrieve_memory] \<or>
            map fst ran = [retrieve_memory, prompt_guidance] \<or>
            map fst ran = [retrieve_memory, prompt_guidance, chat_by_llm1]) \<and>
           ((\<exists>result. outcome = Inr result) \<longrightarrow>
              map fst ran = [retrieve_memory, prompt_guidance, chat_by_llm1]) \<and>
           (\<forall>state. (prompt_guidance, state) \<in> set ran \<longrightarrow>
              (\<exists>update memory.
                 fst (retrieve_memory_node env [''input'' \<mapsto> user_input] w) = Inr update \<and>
                 update ''retrieved_memory'' = Some memory \<and>
                 state ''retrieved_memory'' = Some memory))"
proof -
  let ?s0 = "[''input'' \<mapsto> user_input]"
  let ?w0 = "w\<lparr>visited := visited w @ [(retrieve_memory, ?s0)]\<rparr>"
  obtain r1 w1 where n1: "retrieve_memory_node env ?s0 ?w0 = (r1, w1)"
    by (cases "retrieve_memory_node env ?s0 ?w0")
  have v1: "visited w1 = visited w @ [(retrieve_memory, ?s0)]"
    using retrieve_memory_node_frame [OF n1] by simp
  have r1: "fst (retrieve_memory_node env ?s0 w) = r1"
    using retrieve_memory_node_result [of env ?s0 w ?w0] n1 by simp
  show ?thesis
  proof (cases r1)
    case (Inl e)
    then have "w' = w1"
      using assms n1 by (simp add: graph_invoke_unfold)
    moreover have "outcome = Inl e"
      using assms n1 Inl by (simp add: graph_invoke_unfold)
    ultimately show ?thesis
      using v1 by simp
  next
    case (Inr u1)
    then obtain memory where m: "u1 ''retrieved_memory'' = Some memory"
      using n1 by (auto simp: retrieve_memory_node_def Let_def split: sum.splits)
    let ?s1 = "?s0 ++ u1"
    let ?w1 = "w1\<lparr>visited := visited w1 @ [(prompt_guidance, ?s1)]\<rparr>"
    have s1: "?s1 ''retrieved_memory'' = Some memory"
      using m by (simp add: map_add_def)
    obtain r2 w2 where n2: "prompt_guidance_node env ?s1 ?w1 = (r2, w2)"
      by (cases "prompt_guidance_node env ?s1 ?w1")
    have v2: "visited w2 = visited w @ [(retrieve_memory, ?s0), (prompt_guidance, ?s1)]"
      using prompt_guidance_node_frame [OF n2] v1 by simp
    show ?thesis
    proof (cases r2)
      case (Inl e)
      then have "w' = w2" "outcome = Inl e"
        using assms n1 n2 \<open>r1 = Inr u1\<close> by (simp_all add: graph_invoke_unfold)
      then show ?thesis
        using v2 r1 \<open>r1 = Inr u1\<close> m s1 by auto
    next
      case (Inr u2)
      let ?s2 = "?s1 ++ u2"
      let ?w2 = "w2\<lparr>visited := visited w2 @ [(chat_by_llm1, ?s2)]\<rparr>"
      obtain r3 w3 where n3: "chat_by_llm1_node env ?s2 ?w2 = (r3, w3)"
        by (cases "chat_by_llm1_node env ?s2 ?w2")
      have v3: "visited w3 = visited w @
                  [(retrieve_memory, ?s0), (prompt_guidance, ?s1), (chat_by_llm1, ?s2)]"
        using chat_by_llm1_node_frame [OF n3] v2 by simp
      have "w' = w3"
        using assms n1 n2 n3 \<open>r1 = Inr u1\<close> Inr
        by (cases r3) (simp_all add: graph_invoke_unfold)
      then show ?thesis
        using v3 r1 \<open>r1 = Inr u1\<close> m s1 by auto
    qed
  qed
qed

text \<open>The nodes visited, by the first collaborator that raises.\<close>

lemma run_search_raises_visited:
  assumes "search_tool env user_input = Inl e"
  shows "map fst (visited (snd (graph_invoke env [''input'' \<mapsto> user_input] w))) =
           map fst (visited w) @ [retrieve_memory]"
  using assms by (simp add: run_search_raises)

lemma run_planning_raises_visited:
  assumes "search_tool env user_input = Inr search_results"
      and "memory_text_of (py_repr env) search_results = Inr memory_text"
      and "memory = (if memory_text \<noteq> [] then memory_text else no_memory)"
      and "chat_openai env model_name llm2_temperature (guidance_prompt user_input memory) = Inl e"
  shows "map fst (visited (snd (graph_invoke env [''input'' \<mapsto> user_input] w))) =
           map fst (visited w) @ [retrieve_memory, prompt_guidance]"
  using assms
  by (simp add: graph_invoke_unfold retrieve_memory_node_returns
      prompt_guidance_node_returns [where user_input = user_input and memory = memory])

lemma run_generation_visited:
  assumes "search_tool env user_input = Inr search_results"
      and "memory_text_of (py_repr env) search_results = Inr memory_text"
      and "memory = (if memory_text \<noteq> [] then memory_text else no_memory)"
      and "chat_openai env model_name llm2_temperature (guidance_prompt user_input memory) = Inr instructions"
  shows "map fst (visited (snd (graph_invoke env [''input'' \<mapsto> user_input] w))) =
           map fst (visited w) @ [retrieve_memory, prompt_guidance, chat_by_llm1]"
proof -
  let ?s0 = "[''input'' \<mapsto> user_input]"
  let ?u1 = "[''input'' \<mapsto> user_input, ''retrieved_memory'' \<mapsto> memory,
              ''llm1_prompt_instructions'' \<mapsto> []]"
  let ?u2 = "[''input'' \<mapsto> user_input, ''retrieved_memory'' \<mapsto> memory,
              ''llm1_prompt_instructions'' \<mapsto> instructions]"
  let ?w0 = "w\<lparr>visited := visited w @ [(retrieve_memory, ?s0)]\<rparr>"
  let ?w1 = "?w0\<lparr>calls := calls ?w0 @ [SearchInvoke user_input],
                debug_search_results := Some search_results\<rparr>"
  let ?w1' = "?w1\<lparr>visited := visited ?w1 @ [(prompt_guidance, ?s0 ++ ?u1)]\<rparr>"
  let ?w2 = "?w1'\<lparr>calls := calls ?w1' @
                [ChatInvoke model_name llm2_temperature (guidance_prompt user_input memory)]\<rparr>"
  let ?w2' = "?w2\<lparr>visited := visited ?w2 @ [(chat_by_llm1, ?s0 ++ ?u1 ++ ?u2)]\<rparr>"
  have n1: "retrieve_memory_node env ?s0 ?w0 = (Inr ?u1, ?w1)"
    using retrieve_memory_node_returns [OF _ assms(1,2), of ?s0 ?w0] assms(3) by simp
  have n2: "prompt_guidance_node env (?s0 ++ ?u1) ?w1' = (Inr ?u2, ?w2)"
    using prompt_guidance_node_returns
            [where state = "?s0 ++ ?u1" and user_input = user_input and memory = memory
               and env = env and w = ?w1']
          assms(4)
    by simp
  obtain r3 w3 where n3: "chat_by_llm1_node env (?s0 ++ ?u1 ++ ?u2) ?w2' = (r3, w3)"
    by (cases "chat_by_llm1_node env (?s0 ++ ?u1 ++ ?u2) ?w2'")
  have v3: "visited w3 = visited ?w2'"
    using chat_by_llm1_node_frame [OF n3] by simp
  have "snd (graph_invoke env ?s0 w) = w3"
    using n1 n2 n3 by (cases r3) (simp_all add: graph_invoke_unfold)
  then show ?thesis
    using v3 by simp
qed

text \<open>
  Claim C7. Every run executes retrieval, then planning, then generation, each at most once
  and none before its predecessor, and stops only at a stage whose collaborator raises.
  The nodes visited are the first one, two or three of that sequence, and all three when
  the run returns a result; the state the planning node receives holds the
  \<open>retrieved_memory\<close> that the retrieval node of the same run returned. The stages do
  their work in that order: the calls of a run are the search with the user's input, then
  the planning call on a prompt built from the input and the retrieved memory, then the
  generation call on a prompt built from the planning instructions, the memory and the
  input, then the create with the turn of input and reply; the run ends after the first of
  these that raises, with that exception, and a run in which none raises returns the state
  with all four fields as the stages produced them.
\<close>

theorem pipeline_runs_stages_in_order:
  assumes "graph_invoke env [''input'' \<mapsto> user_input] w = (outcome, w')"
  shows "\<exists>ran new.
           visited w' = visited w @ ran \<and>
           calls w' = calls w @ new \<and>
           (map fst ran = [retrieve_memory] \<or>
            map fst ran = [retrieve_memory, prompt_guidance] \<or>
            map fst ran = [retrieve_memory, prompt_guidance, chat_by_llm1]) \<and>
           ((\<exists>result. outcome = Inr result) \<longrightarrow>
              map fst ran = [retrieve_memory, prompt_guidance, chat_by_llm1]) \<and>
           (\<forall>state. (prompt_guidance, state) \<in> set ran \<longrightarrow>
              (\<exists>update memory.
                 fst (retrieve_memory_node env [''input'' \<mapsto> user_input] w) = Inr update \<and>
                 update ''retrieved_memory'' = Some memory \<and>
                 state ''retrieved_memory'' = Some memory)) \<and>
           ((\<exists>e. search_tool env user_input = Inl e \<and>
                 outcome = Inl e \<and>
                 map fst ran = [retrieve_memory] \<and>
                 new = [SearchInvoke user_input]) \<or>
            (\<exists>search_results memory_text memory.
               search_tool env user_input = Inr search_results \<and>
               memory_text_of (py_repr env) search_results = Inr memory_text \<and>
               memory = (if memory_text \<noteq> [] then memory_text else no_memory) \<and>
               ((\<exists>e. chat_openai env model_name llm2_temperature
                          (guidance_prompt user_input memory) = Inl e \<and>
                     outcome = Inl e \<and>
                     map fst ran = [retrieve_memory, prompt_guidance] \<and>
                     new = [SearchInvoke user_input,
                            ChatInvoke model_name llm2_temperature
                              (guidance_prompt user_input memory)]) \<or>
                (\<exists>instructions.
                   chat_openai env model_name llm2_temperature
                     (guidance_prompt user_input memory) = Inr instructions \<and>
                   map fst ran = [retrieve_memory, prompt_guidance, chat_by_llm1] \<and>
                   ((\<exists>e. chat_openai env model_name llm1_temperature
                              (chat_prompt instructions memory user_input) = Inl e \<and>
                         outcome = Inl e \<and>
                         new = [SearchInvoke user_input,
                                ChatInvoke model_name llm2_temperature
                                  (guidance_prompt user_input memory),
                                ChatInvoke model_name llm1_temperature
                                  (chat_prompt instructions memory user_input)]) \<or>
                    (\<exists>response.
                       chat_openai env model_name llm1_temperature
                         (chat_prompt instructions memory user_input) = Inr response \<and>
                       new = [SearchInvoke user_input,
                              ChatInvoke model_name llm2_temperature
                                (guidance_prompt user_input memory),
                              ChatInvoke model_name llm1_temperature
                                (chat_prompt instructions memory user_input),
                              ManageInvoke (stored_turn user_input response) ''create''] \<and>
                       ((\<exists>e. manage_tool env (stored_turn user_input response) ''create'' = Inl e \<and>
                             outcome = Inl e \<and>
                             stored w' = stored w) \<or>
                        (\<exists>result.
                           manage_tool env (stored_turn user_input response) ''create'' = Inr () \<and>
                           outcome = Inr result \<and>
                           result ''input'' = Some user_input \<and>
                           result ''retrieved_memory'' = Some memory \<and>
                           result ''llm1_prompt_instructions'' = Some instructions \<and>
                           result ''response'' = Some response \<and>
                           stored w' = stored w @ [stored_turn user_input response]))))))))"
proof -
  let ?s0 = "[''input'' \<mapsto> user_input]"
  let ?R = "[retrieve_memory]"
  let ?RP = "[retrieve_memory, prompt_guidance]"
  let ?RPC = "[retrieve_memory, prompt_guidance, chat_by_llm1]"
  obtain ran where ran: "visited w' = visited w @ ran"
      "map fst ran = ?R \<or> map fst ran = ?RP \<or> map fst ran = ?RPC"
      "(\<exists>result. outcome = Inr result) \<longrightarrow> map fst ran = ?RPC"
      "\<forall>state. (prompt_guidance, state) \<in> set ran \<longrightarrow>
         (\<exists>update memory.
            fst (retrieve_memory_node env ?s0 w) = Inr update \<and>
            update ''retrieved_memory'' = Some memory \<and>
            state ''retrieved_memory'' = Some memory)"
    using run_visits_in_order [OF assms] by (elim exE conjE) (rule that; assumption)
  have w': "snd (graph_invoke env ?s0 w) = w'"
    using assms by simp
  have visits: "map fst ran = xs" if "map fst (visited w') = map fst (visited w) @ xs" for xs
    using that ran(1) by simp
  let ?S = "SearchInvoke user_input"
  show ?thesis
  proof (cases "search_tool env user_input")
    case (Inl e)
    have "outcome = Inl e" "calls w' = calls w @ [?S]"
      using run_search_raises [OF Inl, of w] assms by simp_all
    moreover have "map fst ran = ?R"
      using run_search_raises_visited [OF Inl, of w] w' visits by simp
    ultimately show ?thesis
      using ran Inl by simp
  next
    case (Inr search_results)
    obtain memory_text where mt: "memory_text_of (py_repr env) search_results = Inr memory_text"
      using memory_text_of_total by blast
    define memory where "memory = (if memory_text \<noteq> [] then memory_text else no_memory)"
    let ?C2 = "ChatInvoke model_name llm2_temperature (guidance_prompt user_input memory)"
    show ?thesis
    proof (cases "chat_openai env model_name llm2_temperature (guidance_prompt user_input memory)")
      case (Inl e)
      have "outcome = Inl e" "calls w' = calls w @ [?S, ?C2]"
        using run_planning_raises [OF Inr mt memory_def Inl, of w] assms by auto
      moreover have "map fst ran = ?RP"
        using run_planning_raises_visited [OF Inr mt memory_def Inl, of w] w' visits by simp
      ultimately show ?thesis
        using ran Inr mt memory_def Inl by simp
    next
      case plan: (Inr instructions)
      let ?C1 = "ChatInvoke model_name llm1_temperature (chat_prompt instructions memory user_input)"
      have all: "map fst ran = ?RPC"
        using run_generation_visited [OF Inr mt memory_def plan, of w] w' visits by simp
      show ?thesis
      proof (cases "chat_openai env model_name llm1_temperature
                      (chat_prompt instructions memory user_input)")
        case (Inl e)
        have "outcome = Inl e" "calls w' = calls w @ [?S, ?C2, ?C1]"
          using run_generation_raises [OF Inr mt memory_def plan Inl, of w] assms by auto
        then show ?thesis
          using ran all Inr mt memory_def plan Inl by simp
      next
        case gen: (Inr response)
        let ?M = "ManageInvoke (stored_turn user_input response) ''create''"
        show ?thesis
        proof (cases "manage_tool env (stored_turn user_input response) ''create''")
          case (Inl e)
          have "outcome = Inl e" "calls w' = calls w @ [?S, ?C2, ?C1, ?M]" "stored w' = stored w"
            using run_create_raises [OF Inr mt memory_def plan gen Inl, of w] assms by auto
          then show ?thesis
            using ran all Inr mt memory_def plan gen Inl by simp
        next
          case created: (Inr ok)
          then have created': "manage_tool env (stored_turn user_input response) ''create'' = Inr ()"
            by simp
          obtain result where "outcome = Inr result"
              "result ''input'' = Some user_input" "result ''retrieved_memory'' = Some memory"
              "result ''llm1_prompt_instructions'' = Some instructions"
              "result ''response'' = Some response"
              "calls w' = calls w @ [?S, ?C2, ?C1, ?M]"
              "stored w' = stored w @ [stored_turn user_input response]"
            using run_returns [OF Inr mt memory_def plan gen created, of w] assms by auto
          then show ?thesis
            using ran all Inr mt memory_def plan gen created' by simp
        qed
      qed
    qed
  qed
qed

theorem pipeline_runs_stages_in_order_witness:
  "(\<exists>result. fst (graph_invoke env_ok [''input'' \<mapsto> ''hello''] fresh_world) = Inr result \<and>
              result ''input'' = Some ''hello'' \<and>
              result ''retrieved_memory'' = Some no_memory \<and>
              result ''llm1_prompt_instructions'' = Some ''plan'' \<and>
              result ''response'' = Some ''reply'') \<and>
   (\<exists>ran. visited (snd (graph_invoke env_ok [''input'' \<mapsto> ''hello''] fresh_world)) = ran \<and>
          map fst ran = [retrieve_memory, prompt_guidance, chat_by_llm1] \<and>
          (\<exists>state. (prompt_guidance, state) \<in> set ran \<and> state ''retrieved_memory'' = Some no_memory)) \<and>
   calls (snd (graph_invoke env_ok [''input'' \<mapsto> ''hello''] fresh_world)) =
     [SearchInvoke ''hello'',
      ChatInvoke model_name llm2_temperature (guidance_prompt ''hello'' no_memory),
      ChatInvoke model_name llm1_temperature (chat_prompt ''plan'' no_memory ''hello''),
      ManageInvoke (stored_turn ''hello'' ''reply'') ''create''] \<and>
   stored (snd (graph_invoke env_ok [''input'' \<mapsto> ''hello''] fresh_world)) =
     [stored_turn ''hello'' ''reply'']"
proof -
  let ?s0 = "[''input'' \<mapsto> ''hello'']"
  obtain outcome w' where run: "graph_invoke env_ok ?s0 fresh_world = (outcome, w')"
    by (cases "graph_invoke env_ok ?s0 fresh_world")
  have search: "search_tool env_ok ''hello'' = Inr []"
    by (simp add: env_ok_def)
  have plan: "chat_openai env_ok model_name llm2_temperature p = Inr ''plan''" for p
    by (simp add: env_ok_def)
  have gen: "chat_openai env_ok model_name llm1_temperature p = Inr ''reply''" for p
    by (simp add: env_ok_def temperatures_differ)
  have create: "manage_tool env_ok c ''create'' = Inr ()" for c
    by (simp add: env_ok_def)
  have node: "fst (retrieve_memory_node env_ok ?s0 fresh_world) =
      Inr [''input'' \<mapsto> ''hello'', ''retrieved_memory'' \<mapsto> no_memory,
           ''llm1_prompt_instructions'' \<mapsto> []]"
    by (simp add: retrieve_memory_node_def state_get_def memory_text_of_empty search)
  have fresh: "visited fresh_world = []" "calls fresh_world = []" "stored fresh_world = []"
    by (simp_all add: fresh_world_def)
  obtain ran new where ran: "visited w' = visited fresh_world @ ran"
      "calls w' = calls fresh_world @ new"
      "\<forall>state. (prompt_guidance, state) \<in> set ran \<longrightarrow>
         (\<exists>update memory.
            fst (retrieve_memory_node env_ok ?s0 fresh_world) = Inr update \<and>
            update ''retrieved_memory'' = Some memory \<and>
            state ''retrieved_memory'' = Some memory)"
      and scenario: "\<exists>result. outcome = Inr result \<and>
            map fst ran = [retrieve_memory, prompt_guidance, chat_by_llm1] \<and>
            new = [SearchInvoke ''hello'',
                   ChatInvoke model_name llm2_temperature (guidance_prompt ''hello'' no_memory),
                   ChatInvoke model_name llm1_temperature (chat_prompt ''plan'' no_memory ''hello''),
                   ManageInvoke (stored_turn ''hello'' ''reply'') ''create''] \<and>
            result ''input'' = Some ''hello'' \<and>
            result ''retrieved_memory'' = Some no_memory \<and>
            result ''llm1_prompt_instructions'' = Some ''plan'' \<and>
            result ''response'' = Some ''reply'' \<and>
            stored w' = stored fresh_world @ [stored_turn ''hello'' ''reply'']"
    using pipeline_runs_stages_in_order [OF run]
    by (auto simp: search plan gen create memory_text_of_empty)
  from scenario obtain state where state: "(prompt_guidance, state) \<in> set ran"
    by (auto simp: map_eq_Cons_conv)
  with ran(3) node have "state ''retrieved_memory'' = Some no_memory"
    by auto
  with run ran(1,2) scenario state fresh show ?thesis
    by auto
qed

section \<open>The fields each stage writes\<close>

text \<open>
  The claim C8 as stated fails on the code: the retrieval node also writes the planning
  field. In a run the state has no \<open>llm1_prompt_instructions\<close> before retrieval and the
  empty text after it.
\<close>

theorem stage_update_counterexample:
  "retrieve_memory_node env_ok [''input'' \<mapsto> ''hello''] fresh_world =
     (Inr [''input'' \<mapsto> ''hello'', ''retrieved_memory'' \<mapsto> no_memory,
           ''llm1_prompt_instructions'' \<mapsto> []],
      fresh_world\<lparr>calls := [SearchInvoke ''hello''], debug_search_results := Some []\<rparr>) \<and>
   [''input'' \<mapsto> ''hello''] ''llm1_prompt_instructions'' = None \<and>
   ([''input'' \<mapsto> ''hello''] ++
    [''input'' \<mapsto> ''hello'', ''retrieved_memory'' \<mapsto> no_memory,
     ''llm1_prompt_instructions'' \<mapsto> []]) ''llm1_prompt_instructions'' = Some []"
  by (simp add: retrieve_memory_node_def state_get_def env_ok_def fresh_world_def memory_text_of_def)

text \<open>
  Claim C8, amended. The retrieval node returns the fields \<open>input\<close>, \<open>retrieved_memory\<close> and
  \<open>llm1_prompt_instructions\<close>: it leaves \<open>input\<close> as it was, sets the planning
  instructions to the empty text, and changes no field other than these two. The planning
  node changes no field but \<open>llm1_prompt_instructions\<close>, and the generation node no field
  but \<open>response\<close>.
\<close>

theorem stages_write_only_their_fields:
  "(retrieve_memory_node env state w = (Inr update, w') \<longrightarrow>
      dom update = {''input'', ''retrieved_memory'', ''llm1_prompt_instructions''} \<and>
      (state ++ update) ''input'' = state ''input'' \<and>
      (state ++ update) ''llm1_prompt_instructions'' = Some [] \<and>
      (\<forall>k. k \<noteq> ''retrieved_memory'' \<and> k \<noteq> ''llm1_prompt_instructions'' \<longrightarrow>
           (state ++ update) k = state k)) \<and>
   (prompt_guidance_node env state w = (Inr update, w') \<longrightarrow>
      (\<forall>k. k \<noteq> ''llm1_prompt_instructions'' \<longrightarrow> (state ++ update) k = state k)) \<and>
   (chat_by_llm1_node env state w = (Inr update, w') \<longrightarrow>
      (\<forall>k. k \<noteq> ''response'' \<longrightarrow> (state ++ update) k = state k))"
proof (intro conjI impI)
  assume r: "retrieve_memory_node env state w = (Inr update, w')"
  then obtain user_input memory where
    u: "state ''input'' = Some user_input"
       "update = [''input'' \<mapsto> user_input, ''retrieved_memory'' \<mapsto> memory,
                  ''llm1_prompt_instructions'' \<mapsto> []]"
    by (auto simp: retrieve_memory_node_def state_get_def Let_def split: option.splits sum.splits)
  show "dom update = {''input'', ''retrieved_memory'', ''llm1_prompt_instructions''}"
    using u by auto
  show "(state ++ update) ''input'' = state ''input''"
    using u by simp
  show "(state ++ update) ''llm1_prompt_instructions'' = Some []"
    using u by simp
  show "\<forall>k. k \<noteq> ''retrieved_memory'' \<and> k \<noteq> ''llm1_prompt_instructions'' \<longrightarrow>
           (state ++ update) k = state k"
    using u by (auto simp: map_add_def)
next
  assume "prompt_guidance_node env state w = (Inr update, w')"
  then obtain user_input memory content where
    u: "state ''input'' = Some user_input" "state ''retrieved_memory'' = Some memory"
       "update = [''input'' \<mapsto> user_input, ''retrieved_memory'' \<mapsto> memory,
                  ''llm1_prompt_instructions'' \<mapsto> content]"
    by (auto simp: prompt_guidance_node_def state_get_def Let_def split: option.splits sum.splits)
  show "\<forall>k. k \<noteq> ''llm1_prompt_instructions'' \<longrightarrow> (state ++ update) k = state k"
    using u by (auto simp: map_add_def)
next
  assume "chat_by_llm1_node env state w = (Inr update, w')"
  then obtain instructions content where
    u: "state ''llm1_prompt_instructions'' = Some instructions"
       "update = [''response'' \<mapsto> content, ''llm1_prompt_instructions'' \<mapsto> instructions]"
    by (auto simp: chat_by_llm1_node_def state_get_def Let_def split: option.splits sum.splits)
  show "\<forall>k. k \<noteq> ''response'' \<longrightarrow> (state ++ update) k = state k"
    using u by (auto simp: map_add_def)
qed

theorem stages_write_only_their_fields_witness:
  "retrieve_memory_node env_ok [''input'' \<mapsto> ''hello''] fresh_world =
     (Inr [''input'' \<mapsto> ''hello'', ''retrieved_memory'' \<mapsto> no_memory,
           ''llm1_prompt_instructions'' \<mapsto> []],
      fresh_world\<lparr>calls := [SearchInvoke ''hello''], debug_search_results := Some []\<rparr>) \<and>
   ([''input'' \<mapsto> ''hello''] ++
    [''input'' \<mapsto> ''hello'', ''retrieved_memory'' \<mapsto> no_memory,
     ''llm1_prompt_instructions'' \<mapsto> []]) ''input'' = Some ''hello'' \<and>
   prompt_guidance_node env_ok
      [''input'' \<mapsto> ''hello'', ''retrieved_memory'' \<mapsto> no_memory,
       ''llm1_prompt_instructions'' \<mapsto> []] fresh_world =
     (Inr [''input'' \<mapsto> ''hello'', ''retrieved_memory'' \<mapsto> no_memory,
           ''llm1_prompt_instructions'' \<mapsto> ''plan''],
      fresh_world\<lparr>calls := [ChatInvoke model_name llm2_temperature
                                  (guidance_prompt ''hello'' no_memory)]\<rparr>) \<and>
   ([''input'' \<mapsto> ''hello'', ''retrieved_memory'' \<mapsto> no_memory,
     ''llm1_prompt_instructions'' \<mapsto> []] ++
    [''input'' \<mapsto> ''hello'', ''retrieved_memory'' \<mapsto> no_memory,
     ''llm1_prompt_instructions'' \<mapsto> ''plan'']) ''retrieved_memory'' = Some no_memory \<and>
   chat_by_llm1_node env_ok
      [''input'' \<mapsto> ''hello'', ''retrieved_memory'' \<mapsto> no_memory,
       ''llm1_prompt_instructions'' \<mapsto> ''plan''] fresh_world =
     (Inr [''response'' \<mapsto> ''reply'', ''llm1_prompt_instructions'' \<mapsto> ''plan''],
      fresh_world
        \<lparr>calls := [ChatInvoke model_name llm1_temperature (chat_prompt ''plan'' no_memory ''hello''),
                   ManageInvoke (stored_turn ''hello'' ''reply'') ''create''],
         stored := [stored_turn ''hello'' ''reply'']\<rparr>) \<and>
   ([''input'' \<mapsto> ''hello'', ''retrieved_memory'' \<mapsto> no_memory,
     ''llm1_prompt_instructions'' \<mapsto> ''plan''] ++
    [''response'' \<mapsto> ''reply'', ''llm1_prompt_instructions'' \<mapsto> ''plan''])
      ''llm1_prompt_instructions'' = Some ''plan''"
proof -
  let ?s0 = "[''input'' \<mapsto> ''hello'']"
  let ?u1 = "[''input'' \<mapsto> ''hello'', ''retrieved_memory'' \<mapsto> no_memory,
              ''llm1_prompt_instructions'' \<mapsto> []]"
  let ?u2 = "[''input'' \<mapsto> ''hello'', ''retrieved_memory'' \<mapsto> no_memory,
              ''llm1_prompt_instructions'' \<mapsto> ''plan'']"
  let ?u3 = "[''response'' \<mapsto> ''reply'', ''llm1_prompt_instructions'' \<mapsto> ''plan'']"
  let ?w1 = "fresh_world\<lparr>calls := [SearchInvoke ''hello''], debug_search_results := Some []\<rparr>"
  let ?w2 = "fresh_world\<lparr>calls := [ChatInvoke model_name llm2_temperature
                                  (guidance_prompt ''hello'' no_memory)]\<rparr>"
  let ?w3 = "fresh_world
        \<lparr>calls := [ChatInvoke model_name llm1_temperature (chat_prompt ''plan'' no_memory ''hello''),
                   ManageInvoke (stored_turn ''hello'' ''reply'') ''create''],
         stored := [stored_turn ''hello'' ''reply'']\<rparr>"
  have n1: "retrieve_memory_node env_ok ?s0 fresh_world = (Inr ?u1, ?w1)"
    by (simp add: retrieve_memory_node_def state_get_def env_ok_def fresh_world_def
        memory_text_of_def)
  have n2: "prompt_guidance_node env_ok ?u1 fresh_world = (Inr ?u2, ?w2)"
    by (simp add: prompt_guidance_node_def state_get_def env_ok_def fresh_world_def Let_def)
  have n3: "chat_by_llm1_node env_ok ?u2 fresh_world = (Inr ?u3, ?w3)"
    by (simp add: chat_by_llm1_node_def state_get_def env_ok_def fresh_world_def Let_def
        temperatures_differ)
  have k1: "''input'' \<noteq> ''retrieved_memory'' \<and> ''input'' \<noteq> ''llm1_prompt_instructions''"
    by simp
  have k2: "''retrieved_memory'' \<noteq> ''llm1_prompt_instructions''"
    by simp
  have k3: "''llm1_prompt_instructions'' \<noteq> ''response''"
    by simp
  note frame1 = stages_write_only_their_fields
      [where env = env_ok and state = ?s0 and w = fresh_world and update = ?u1 and w' = ?w1,
        THEN conjunct1, THEN mp, OF n1]
  note frame2 = stages_write_only_their_fields
      [where env = env_ok and state = ?u1 and w = fresh_world and update = ?u2 and w' = ?w2,
        THEN conjunct2, THEN conjunct1, THEN mp, OF n2]
  note frame3 = stages_write_only_their_fields
      [where env = env_ok and state = ?u2 and w = fresh_world and update = ?u3 and w' = ?w3,
        THEN conjunct2, THEN conjunct2, THEN mp, OF n3]
  have f1: "(?s0 ++ ?u1) ''input'' = ?s0 ''input''"
    by (rule frame1 [THEN conjunct2, THEN conjunct2, THEN conjunct2, THEN spec, THEN mp, OF k1])
  have f2: "(?u1 ++ ?u2) ''retrieved_memory'' = ?u1 ''retrieved_memory''"
    by (rule frame2 [THEN spec, THEN mp, OF k2])
  have f3: "(?u2 ++ ?u3) ''llm1_prompt_instructions'' = ?u2 ''llm1_prompt_instructions''"
    by (rule frame3 [THEN spec, THEN mp, OF k3])
  have g1: "?s0 ''input'' = Some ''hello''"
    by simp
  have g2: "?u1 ''retrieved_memory'' = Some no_memory"
    by simp
  have g3: "?u2 ''llm1_prompt_instructions'' = Some ''plan''"
    by simp
  show ?thesis
    by (intro conjI n1 n2 n3 f1 [unfolded g1] f2 [unfolded g2] f3 [unfolded g3])
qed

section \<open>Sampling temperatures\<close>

text \<open>
  Claim C9. Every call of the completion provider made by the planning node has the sampling
  temperature 0.3, every call made by the generation node has 0.7, and the first is strictly
  lower than the second.
\<close>

theorem planning_samples_colder_than_generation:
  assumes "prompt_guidance_node env state2 w2 = (outcome2, w2')"
      and "chat_by_llm1_node env state1 w1 = (outcome1, w1')"
      and "calls w2' = calls w2 @ new2"
      and "calls w1' = calls w1 @ new1"
      and "ChatInvoke m2 t2 p2 \<in> set new2"
      and "ChatInvoke m1 t1 p1 \<in> set new1"
  shows "t2 = llm2_temperature \<and> t1 = llm1_temperature \<and> t2 < t1"
proof -
  have t2: "t2 = llm2_temperature"
    using assms(1,3,5)
    by (auto simp: prompt_guidance_node_def state_get_def Let_def split: option.splits sum.splits)
  have t1: "t1 = llm1_temperature"
    using assms(2,4,6)
    by (auto simp: chat_by_llm1_node_def state_get_def Let_def split: option.splits sum.splits)
  have "llm2_temperature < llm1_temperature"
    by (simp add: llm2_temperature_def llm1_temperature_def)
  with t2 t1 show ?thesis by simp
qed

theorem planning_samples_colder_than_generation_witness:
  "prompt_guidance_node env_ok [''input'' \<mapsto> ''hello'', ''retrieved_memory'' \<mapsto> no_memory] fresh_world =
     (Inr [''input'' \<mapsto> ''hello'', ''retrieved_memory'' \<mapsto> no_memory,
           ''llm1_prompt_instructions'' \<mapsto> ''plan''],
      fresh_world\<lparr>calls := [ChatInvoke model_name llm2_temperature
                                  (guidance_prompt ''hello'' no_memory)]\<rparr>) \<and>
   chat_by_llm1_node env_ok
      [''input'' \<mapsto> ''hello'', ''retrieved_memory'' \<mapsto> no_memory,
       ''llm1_prompt_instructions'' \<mapsto> ''plan''] fresh_world =
     (Inr [''response'' \<mapsto> ''reply'', ''llm1_prompt_instructions'' \<mapsto> ''plan''],
      fresh_world
        \<lparr>calls := [ChatInvoke model_name llm1_temperature (chat_prompt ''plan'' no_memory ''hello''),
                   ManageInvoke (stored_turn ''hello'' ''reply'') ''create''],
         stored := [stored_turn ''hello'' ''reply'']\<rparr>) \<and>
   llm2_temperature = 0.3 \<and> llm1_temperature = 0.7 \<and> llm2_temperature < llm1_temperature"
proof -
  let ?new2 = "[ChatInvoke model_name llm2_temperature (guidance_prompt ''hello'' no_memory)]"
  let ?new1 = "[ChatInvoke model_name llm1_temperature (chat_prompt ''plan'' no_memory ''hello''),
                ManageInvoke (stored_turn ''hello'' ''reply'') ''create'']"
  let ?w2 = "fresh_world\<lparr>calls := ?new2\<rparr>"
  let ?w1 = "fresh_world\<lparr>calls := ?new1, stored := [stored_turn ''hello'' ''reply'']\<rparr>"
  have run2: "prompt_guidance_node env_ok
      [''input'' \<mapsto> ''hello'', ''retrieved_memory'' \<mapsto> no_memory] fresh_world =
     (Inr [''input'' \<mapsto> ''hello'', ''retrieved_memory'' \<mapsto> no_memory,
           ''llm1_prompt_instructions'' \<mapsto> ''plan''], ?w2)"
    by (simp add: prompt_guidance_node_def state_get_def env_ok_def fresh_world_def Let_def)
  have run1: "chat_by_llm1_node env_ok
      [''input'' \<mapsto> ''hello'', ''retrieved_memory'' \<mapsto> no_memory,
       ''llm1_prompt_instructions'' \<mapsto> ''plan''] fresh_world =
     (Inr [''response'' \<mapsto> ''reply'', ''llm1_prompt_instructions'' \<mapsto> ''plan''], ?w1)"
    by (simp add: chat_by_llm1_node_def state_get_def env_ok_def fresh_world_def
        llm1_temperature_def llm2_temperature_def Let_def)
  have calls2: "calls ?w2 = calls fresh_world @ ?new2"
    by (simp add: fresh_world_def)
  have calls1: "calls ?w1 = calls fresh_world @ ?new1"
    by (simp add: fresh_world_def)
  have in2: "ChatInvoke model_name llm2_temperature (guidance_prompt ''hello'' no_memory) \<in> set ?new2"
    by simp
  have in1: "ChatInvoke model_name llm1_temperature (chat_prompt ''plan'' no_memory ''hello'') \<in> set ?new1"
    by simp
  have "llm2_temperature < llm1_temperature"
    using planning_samples_colder_than_generation [OF run2 run1 calls2 calls1 in2 in1] by simp
  then show ?thesis
    using run2 run1 by (simp add: llm2_temperature_def llm1_temperature_def)
qed

section \<open>The display of the thought process after a failed run\<close>

text \<open>
  Claim C10. When \<^verbatim>\<open>graph.invoke\<close> raises in a turn, the handler appends and shows the
  apology and then, reading the name \<^verbatim>\<open>result\<close> that was never bound, ends with a
  \<^verbatim>\<open>NameError\<close>: the page holds the user's bubble, the error box, the apology, the
  expander and its heading, and no code block.
\<close>

theorem failed_turn_faults_with_NameError:
  assumes "user_input \<noteq> []"
      and "graph_invoke env [''input'' \<mapsto> user_input]
             (w\<lparr>messages := messages w @ [HumanMessage user_input],
                screen := screen w @ [ChatUser user_input]\<rparr>) = (Inl e, w')"
  shows "on_chat_input env (Some user_input) w =
           (Some (NameError ''result''),
            w'\<lparr>messages := messages w @ [HumanMessage user_input, AIMessage fallback_reply],
               screen := screen w @ [ChatUser user_input, ErrorBox e, ChatBot fallback_reply,
                                     ThoughtExpander, InstructionsHeading]\<rparr>)"
proof -
  have frame: "messages w' = messages w @ [HumanMessage user_input] \<and>
               screen w' = screen w @ [ChatUser user_input]"
    using graph_invoke_frame [OF assms(2)] by simp
  have "chat_turn env user_input w =
           (Some (NameError ''result''),
            w'\<lparr>messages := messages w @ [HumanMessage user_input, AIMessage fallback_reply],
               screen := screen w @ [ChatUser user_input, ErrorBox e, ChatBot fallback_reply,
                                     ThoughtExpander, InstructionsHeading]\<rparr>)"
    using chat_turn_unbound_result [OF invoke_for_reply_raises [OF assms(2)]] frame
    by simp
  then show ?thesis
    using assms(1) by (simp add: on_chat_input_def)
qed

theorem failed_turn_faults_with_NameError_witness:
  "on_chat_input env_planning_down (Some ''hello'') fresh_world =
     (Some (NameError ''result''),
      fresh_world
        \<lparr>visited := [(retrieve_memory, [''input'' \<mapsto> ''hello'']),
                     (prompt_guidance, [''input'' \<mapsto> ''hello'', ''retrieved_memory'' \<mapsto> no_memory,
                                        ''llm1_prompt_instructions'' \<mapsto> []])],
         calls := [SearchInvoke ''hello'',
                   ChatInvoke model_name llm2_temperature (guidance_prompt ''hello'' no_memory)],
         debug_search_results := Some [],
         messages := [HumanMessage ''hello'', AIMessage fallback_reply],
         screen := [ChatUser ''hello'', ErrorBox (ExternalError ''ProviderFailure''),
                    ChatBot fallback_reply, ThoughtExpander, InstructionsHeading]\<rparr>)"
proof -
  let ?w1 = "fresh_world\<lparr>messages := messages fresh_world @ [HumanMessage ''hello''],
                screen := screen fresh_world @ [ChatUser ''hello'']\<rparr>"
  let ?w' = "fresh_world
        \<lparr>visited := [(retrieve_memory, [''input'' \<mapsto> ''hello'']),
                     (prompt_guidance, [''input'' \<mapsto> ''hello'', ''retrieved_memory'' \<mapsto> no_memory,
                                        ''llm1_prompt_instructions'' \<mapsto> []])],
         calls := [SearchInvoke ''hello'',
                   ChatInvoke model_name llm2_temperature (guidance_prompt ''hello'' no_memory)],
         debug_search_results := Some [],
         messages := [HumanMessage ''hello''],
         screen := [ChatUser ''hello'']\<rparr>"
  have nonempty: "''hello'' \<noteq> []"
    by simp
  have run: "graph_invoke env_planning_down [''input'' \<mapsto> ''hello''] ?w1 =
      (Inl (ExternalError ''ProviderFailure''), ?w')"
    by (simp add: graph_invoke_unfold retrieve_memory_node_def prompt_guidance_node_def
        state_get_def memory_text_of_def env_planning_down_def env_ok_def fresh_world_def Let_def)
  show ?thesis
    using failed_turn_faults_with_NameError [OF nonempty run]
    by (simp add: fresh_world_def)
qed

end
